theory Spec2Isabelle
  imports Main "HOL-Library.Word"
begin

unbundle bit_operations_syntax

section \<open>Errors\<close>

text \<open>
  Every error value the package returns or passes on.  The package's own sentinels keep
  their Go names; the others are the errors of the operating system and of the standard
  library that the code hands back unchanged.
\<close>

datatype error =
    ErrNoPID                \<comment> \<open>\<open>errors.New("PID unknown")\<close>\<close>
  | ErrNotRunning           \<comment> \<open>\<open>errors.New("not running")\<close>\<close>
  | errInvalidStage         \<comment> \<open>\<open>errors.New("invalid stage")\<close>\<close>
  | errTimeout              \<comment> \<open>\<open>errors.New("stage 1 process timeout")\<close>\<close>
  | ErrNotExist             \<comment> \<open>the file does not exist\<close>
  | ErrPermission           \<comment> \<open>the file exists but may not be opened or created\<close>
  | ErrNoSpace              \<comment> \<open>a write to an open file failed\<close>
  | ErrExecutable           \<comment> \<open>\<open>os.Executable\<close> could not find the path of the program\<close>
  | EOF                     \<comment> \<open>\<open>io.EOF\<close>\<close>
  | ScanError string        \<comment> \<open>a syntax error of package fmt's scanner\<close>
  | NumError string         \<comment> \<open>\<open>strconv.NumError\<close>: syntax or range\<close>
  | SyscallError string     \<comment> \<open>any other error of a system or network call\<close>
  | ErrorString string      \<comment> \<open>\<open>errors.New\<close> with a message\<close>
  | Errorf string error     \<comment> \<open>\<open>fmt.Errorf\<close> with a format and the error it prints\<close>

definition os_IsNotExist :: "error \<Rightarrow> bool" where
  "os_IsNotExist e = (e = ErrNotExist)"

section \<open>UTF-8, as package fmt reads its input\<close>

text \<open>
  Go strings and files are byte sequences (\<open>string\<close>, a list of 8-bit \<open>char\<close>);
  package fmt scans them rune by rune.  A rune is a code point, a natural number here.
  \<open>first\<close> is the table of package utf8: for a leading byte the length of its sequence
  (0 for ASCII, 1 for a byte that starts no sequence) and the range its second byte must
  lie in.
\<close>

definition RuneError :: nat where "RuneError = 0xFFFD"
definition RuneSelf :: nat where "RuneSelf = 0x80"

definition first :: "nat \<Rightarrow> nat \<times> nat \<times> nat" where
  "first b =
    (if b < 0x80 then (0, 0x80, 0xBF)
     else if b < 0xC2 then (1, 0x80, 0xBF)
     else if b < 0xE0 then (2, 0x80, 0xBF)
     else if b = 0xE0 then (3, 0xA0, 0xBF)
     else if b < 0xED then (3, 0x80, 0xBF)
     else if b = 0xED then (3, 0x80, 0x9F)
     else if b < 0xF0 then (3, 0x80, 0xBF)
     else if b = 0xF0 then (4, 0x90, 0xBF)
     else if b < 0xF4 then (4, 0x80, 0xBF)
     else if b = 0xF4 then (4, 0x80, 0x8F)
     else (1, 0x80, 0xBF))"

definition DecodeRune :: "nat list \<Rightarrow> nat \<times> nat" where
  "DecodeRune p =
    (case p of
       [] \<Rightarrow> (RuneError, 0)
     | p0 # _ \<Rightarrow>
        (case first p0 of (sz, lo, hi) \<Rightarrow>
          if sz = 0 then (p0, 1)
          else if sz = 1 then (RuneError, 1)
          else if length p < sz then (RuneError, 1)
          else let b1 = p ! 1 in
            if b1 < lo \<or> hi < b1 then (RuneError, 1)
            else if sz \<le> 2 then ((p0 mod 32) * 64 + b1 mod 64, 2)
            else let b2 = p ! 2 in
              if b2 < 0x80 \<or> 0xBF < b2 then (RuneError, 1)
              else if sz \<le> 3 then ((p0 mod 16) * 4096 + (b1 mod 64) * 64 + b2 mod 64, 3)
              else let b3 = p ! 3 in
                if b3 < 0x80 \<or> 0xBF < b3 then (RuneError, 1)
                else ((p0 mod 8) * 262144 + (b1 mod 64) * 4096 + (b2 mod 64) * 64
                        + b3 mod 64, 4)))"

definition FullRune :: "nat list \<Rightarrow> bool" where
  "FullRune p =
    (case p of
       [] \<Rightarrow> False
     | p0 # _ \<Rightarrow>
        (case first p0 of (sz, lo, hi) \<Rightarrow>
          if length p \<ge> sz then True
          else if length p > 1 \<and> (p ! 1 < lo \<or> hi < p ! 1) then True
          else if length p > 2 \<and> (p ! 2 < 0x80 \<or> 0xBF < p ! 2) then True
          else False))"

text \<open>
  \<open>utf8.AppendRune\<close>, which the scanner's buffer uses to store a rune it accepted.
\<close>

definition enc3 :: "nat \<Rightarrow> string" where
  "enc3 r = [char_of (0xE0 + r div 4096), char_of (0x80 + (r div 64) mod 64),
             char_of (0x80 + r mod 64)]"

definition EncodeRune :: "nat \<Rightarrow> string" where
  "EncodeRune r =
    (if r < 0x80 then [char_of r]
     else if r \<le> 0x7FF then [char_of (0xC0 + r div 64), char_of (0x80 + r mod 64)]
     else if r > 0x10FFFF \<or> (0xD800 \<le> r \<and> r \<le> 0xDFFF) then enc3 RuneError
     else if r \<le> 0xFFFF then enc3 r
     else [char_of (0xF0 + r div 262144), char_of (0x80 + (r div 4096) mod 64),
           char_of (0x80 + (r div 64) mod 64), char_of (0x80 + r mod 64)])"

text \<open>
  An \<open>*os.File\<close> has no \<open>ReadRune\<close>, so fmt wraps it in its \<open>readRune\<close>, which
  reads the file one byte at a time until the bytes read hold a full rune (or the file
  ends).  \<open>fill n inp\<close> is the number of bytes in its buffer when that loop stops, on a
  file whose unread bytes are \<open>inp\<close>.  \<open>readRune inp\<close> gives the rune, its size in
  bytes, and the number of bytes taken from the file; the bytes past the rune's size
  are kept as pending for the next rune of the same call.
\<close>

function fill :: "nat \<Rightarrow> nat list \<Rightarrow> nat" where
  "fill n inp =
    (if FullRune (take n inp) then n
     else if length inp \<le> n then n
     else fill (Suc n) inp)"
  by pat_completeness auto
termination
  by (relation "measure (\<lambda>(n, inp). length inp - n)") auto

declare fill.simps [simp del]

definition readRune :: "string \<Rightarrow> (nat \<times> nat \<times> nat) option" where
  "readRune inp =
    (case inp of
       [] \<Rightarrow> None
     | c # _ \<Rightarrow>
        if of_char c < RuneSelf then Some (of_char c, 1, 1)
        else let bs = map of_char inp; n = fill 1 bs in
          (case DecodeRune (take n bs) of (r, w) \<Rightarrow> Some (r, w, n)))"

section \<open>The scanner of package fmt\<close>

text \<open>
  The state of one call of \<open>Fscanf\<close> or \<open>Fscanln\<close>: \<open>inp\<close> are the bytes from the
  scanner's position to the end of the file, \<open>ahead\<close> says how many of them the call
  has already taken from the file (a rune that was read and put back with
  \<open>UnreadRune\<close>, or pending bytes), \<open>cnt\<close> counts the runes consumed, and \<open>prev\<close>
  holds the bytes of the rune read last, which \<open>UnreadRune\<close> puts back.  What the
  call took from the file is gone when it returns: the wrapper that holds the look-ahead
  is dropped, and the next call on the same file starts \<open>ahead\<close> bytes further on.

  The scanner stops after \<open>hugeWid\<close> runes.  Both calls of the package run with
  \<open>nlIsSpace = false\<close>.
\<close>

record ss =
  inp :: string
  ahead :: nat
  cnt :: nat
  prev :: string

definition hugeWid :: nat where "hugeWid = 2 ^ 30"

definition newScanState :: "string \<Rightarrow> ss" where
  "newScanState f = \<lparr>inp = f, ahead = 0, cnt = 0, prev = []\<rparr>"

definition file_after :: "ss \<Rightarrow> string" where
  "file_after s = drop (ahead s) (inp s)"

definition ReadRune :: "ss \<Rightarrow> (nat \<times> ss) option" where
  "ReadRune s =
    (if cnt s \<ge> hugeWid then None
     else case readRune (inp s) of
       None \<Rightarrow> None
     | Some (r, w, n) \<Rightarrow>
         Some (r, s\<lparr>inp := drop w (inp s), ahead := max (ahead s) n - w,
                     cnt := cnt s + 1, prev := take w (inp s)\<rparr>))"

definition UnreadRune :: "ss \<Rightarrow> ss" where
  "UnreadRune s = s\<lparr>inp := prev s @ inp s, ahead := ahead s + length (prev s),
                     cnt := cnt s - 1, prev := []\<rparr>"

definition isSpace :: "nat \<Rightarrow> bool" where
  "isSpace r =
    ((0x09 \<le> r \<and> r \<le> 0x0D) \<or> r = 0x20 \<or> r = 0x85 \<or> r = 0xA0 \<or> r = 0x1680
     \<or> (0x2000 \<le> r \<and> r \<le> 0x200A) \<or> r = 0x2028 \<or> r = 0x2029 \<or> r = 0x202F
     \<or> r = 0x205F \<or> r = 0x3000)"

definition peek :: "nat list \<Rightarrow> ss \<Rightarrow> bool \<times> ss" where
  "peek ok s =
    (case ReadRune s of
       None \<Rightarrow> (False, s)
     | Some (r, s1) \<Rightarrow> (r \<in> set ok, UnreadRune s1))"

lemma fill_ge: "n \<le> fill n i"
proof (induction n i rule: fill.induct)
  case (1 n i)
  show ?case
  proof (cases "FullRune (take n i) \<or> length i \<le> n")
    case True
    then show ?thesis by (auto simp: fill.simps [of n i])
  next
    case False
    with "1.IH" have "Suc n \<le> fill (Suc n) i" by simp
    with False show ?thesis by (simp add: fill.simps [of n i])
  qed
qed

lemma DecodeRune_size: "p \<noteq> [] \<Longrightarrow> 1 \<le> snd (DecodeRune p)"
  by (auto simp: DecodeRune_def Let_def split: list.splits prod.splits)

lemma readRune_size:
  assumes "readRune i = Some (r, w, n)"
  shows "1 \<le> w"
proof (cases i)
  case Nil
  with assms show ?thesis by (simp add: readRune_def)
next
  case (Cons c cs)
  show ?thesis
  proof (cases "of_char c < RuneSelf")
    case True
    with assms Cons show ?thesis by (simp add: readRune_def)
  next
    case False
    define bs :: "nat list" where "bs = map of_char i"
    define m where "m = fill 1 bs"
    have "1 \<le> m"
      unfolding m_def by (rule fill_ge)
    then have "take m bs \<noteq> []"
      using Cons by (auto simp: bs_def)
    then have "1 \<le> snd (DecodeRune (take m bs))"
      by (rule DecodeRune_size)
    moreover have "DecodeRune (take m bs) = (r, w)"
      using assms Cons False
      by (auto simp: readRune_def Let_def bs_def m_def split: prod.splits)
    ultimately show ?thesis by simp
  qed
qed

lemma ReadRune_shorter:
  assumes "ReadRune s = Some (r, s1)"
  shows "length (inp s1) < length (inp s)"
proof -
  from assms obtain w n where rr: "readRune (inp s) = Some (r, w, n)"
    and s1: "inp s1 = drop w (inp s)"
    by (auto simp: ReadRune_def split: if_splits option.splits)
  from rr have "inp s \<noteq> []" by (auto simp: readRune_def)
  moreover from rr have "1 \<le> w" by (rule readRune_size)
  ultimately show ?thesis using s1 by (cases "inp s") auto
qed

lemma ReadRune_Unread_inp:
  "ReadRune s = Some (r, s1) \<Longrightarrow> inp (UnreadRune s1) = inp s"
  by (auto simp: ReadRune_def UnreadRune_def split: if_splits option.splits)

lemma peek_inp: "peek ok s = (b, s2) \<Longrightarrow> inp s2 = inp s"
  by (auto simp: peek_def ReadRune_Unread_inp split: option.splits)

lemma peek_inp_sym: "(b, s2) = peek ok s \<Longrightarrow> inp s2 = inp s"
  using peek_inp [of ok s b s2] by simp

text \<open>
  \<open>SkipSpace\<close>: white space is skipped, a newline is an error (\<open>nlIsSpace\<close> is
  false), and the first rune that is no space is put back.
\<close>

function SkipSpace :: "ss \<Rightarrow> error + ss" where
  "SkipSpace s =
    (case ReadRune s of
       None \<Rightarrow> Inr s
     | Some (r, s1) \<Rightarrow>
         (case (if r = 0x0D then peek [0x0A] s1 else (False, s1)) of (cr_nl, s2) \<Rightarrow>
           if cr_nl then SkipSpace s2
           else if r = 0x0A then Inl (ScanError ''unexpected newline'')
           else if \<not> isSpace r then Inr (UnreadRune s2)
           else SkipSpace s2))"
  by pat_completeness auto
termination
  by (relation "measure (\<lambda>s. length (inp s))")
     (auto split: if_splits dest!: ReadRune_shorter peek_inp_sym)

declare SkipSpace.simps [simp del]

text \<open>\<open>notEOF\<close> panics with \<open>io.EOF\<close> when no rune is left.\<close>

definition notEOF :: "ss \<Rightarrow> error + ss" where
  "notEOF s = (case ReadRune s of None \<Rightarrow> Inl EOF | Some (r, s1) \<Rightarrow> Inr (UnreadRune s1))"

text \<open>
  \<open>accept ok\<close> is \<open>consume(ok, true)\<close>: the next rune is stored in the buffer when it
  is one of \<open>ok\<close>, and put back otherwise.
\<close>

definition accept :: "nat list \<Rightarrow> ss \<Rightarrow> string \<Rightarrow> bool \<times> ss \<times> string" where
  "accept ok s buf =
    (case ReadRune s of
       None \<Rightarrow> (False, s, buf)
     | Some (r, s1) \<Rightarrow>
         if r \<in> set ok then (True, s1, buf @ EncodeRune r)
         else (False, UnreadRune s1, buf))"

function accept_all :: "nat list \<Rightarrow> ss \<Rightarrow> string \<Rightarrow> ss \<times> string" where
  "accept_all ok s buf =
    (case accept ok s buf of
       (True, s1, buf1) \<Rightarrow> accept_all ok s1 buf1
     | (False, s1, buf1) \<Rightarrow> (s1, buf1))"
  by pat_completeness auto
termination
  by (relation "measure (\<lambda>(ok, s, buf). length (inp s))")
     (auto simp: accept_def split: option.splits if_splits dest: ReadRune_shorter)

declare accept_all.simps [simp del]

definition sign :: "nat list" where "sign = map of_char ''+-''"

text \<open>The digits of verb \<open>%d\<close>; the underscore is accepted here and refused by \<open>ParseInt\<close>.\<close>

definition decimalDigits :: "nat list" where "decimalDigits = map of_char ''0123456789_''"

definition scanNumber :: "nat list \<Rightarrow> ss \<Rightarrow> string \<Rightarrow> error + ss \<times> string" where
  "scanNumber digits s buf =
    (case notEOF s of
       Inl e \<Rightarrow> Inl e
     | Inr s1 \<Rightarrow>
        (case accept digits s1 buf of
           (False, _, _) \<Rightarrow> Inl (ScanError ''expected integer'')
         | (True, s2, buf2) \<Rightarrow> Inr (accept_all digits s2 buf2)))"

subsection \<open>\<open>strconv.ParseInt(tok, 10, 64)\<close>\<close>

definition is_digit :: "char \<Rightarrow> bool" where
  "is_digit c = (48 \<le> (of_char c :: nat) \<and> (of_char c :: nat) \<le> 57)"

definition digit_val :: "char \<Rightarrow> nat" where
  "digit_val c = of_char c - 48"

definition ParseUint :: "string \<Rightarrow> error + nat" where
  "ParseUint t =
    (if t = [] then Inl (NumError ''invalid syntax'')
     else if \<not> list_all is_digit t then Inl (NumError ''invalid syntax'')
     else Inr (foldl (\<lambda>n c. n * 10 + digit_val c) 0 t))"

definition ParseInt :: "string \<Rightarrow> error + int" where
  "ParseInt t =
    (if t = [] then Inl (NumError ''invalid syntax'')
     else let neg = (hd t = CHR ''-'');
              t1 = (if hd t = CHR ''+'' \<or> hd t = CHR ''-'' then tl t else t)
      in case ParseUint t1 of
           Inl e \<Rightarrow> Inl e
         | Inr un \<Rightarrow>
             if \<not> neg \<and> un \<ge> 2 ^ 63 then Inl (NumError ''value out of range'')
             else if neg \<and> un > 2 ^ 63 then Inl (NumError ''value out of range'')
             else Inr (if neg then - int un else int un))"

subsection \<open>\<open>fmt.Fscanf(f, "%d", &pid)\<close>\<close>

definition scanInt :: "ss \<Rightarrow> error + int \<times> ss" where
  "scanInt s =
    (case SkipSpace s of
       Inl e \<Rightarrow> Inl e
     | Inr s1 \<Rightarrow>
        (case notEOF s1 of
           Inl e \<Rightarrow> Inl e
         | Inr s2 \<Rightarrow>
            (case accept sign s2 [] of (_, s3, buf) \<Rightarrow>
              (case scanNumber decimalDigits s3 buf of
                 Inl e \<Rightarrow> Inl e
               | Inr (s4, tok) \<Rightarrow>
                  (case ParseInt tok of
                     Inl e \<Rightarrow> Inl e
                   | Inr i \<Rightarrow> Inr (i, s4))))))"

text \<open>
  The format \<open>"%d"\<close> has one verb: the scanner skips space, scans one integer and
  returns.  The result is the integer and the bytes of the file that the next read
  will see.
\<close>

definition Fscanf_d :: "string \<Rightarrow> error + int \<times> string" where
  "Fscanf_d f =
    (case SkipSpace (newScanState f) of
       Inl e \<Rightarrow> Inl e
     | Inr s1 \<Rightarrow>
        (case scanInt s1 of
           Inl e \<Rightarrow> Inl e
         | Inr (i, s2) \<Rightarrow> Inr (i, file_after s2)))"

subsection \<open>\<open>fmt.Fscanln(f, data[i])\<close> with a \<open>*string\<close>\<close>

function token_loop :: "ss \<Rightarrow> string \<Rightarrow> ss \<times> string" where
  "token_loop s buf =
    (case ReadRune s of
       None \<Rightarrow> (s, buf)
     | Some (r, s1) \<Rightarrow>
         if isSpace r then (UnreadRune s1, buf)
         else token_loop s1 (buf @ EncodeRune r))"
  by pat_completeness auto
termination
  by (relation "measure (\<lambda>(s, buf). length (inp s))") (auto dest: ReadRune_shorter)

declare token_loop.simps [simp del]

definition convertString :: "ss \<Rightarrow> error + string \<times> ss" where
  "convertString s =
    (case SkipSpace s of
       Inl e \<Rightarrow> Inl e
     | Inr s1 \<Rightarrow>
        (case notEOF s1 of
           Inl e \<Rightarrow> Inl e
         | Inr s2 \<Rightarrow>
            (case SkipSpace s2 of
               Inl e \<Rightarrow> Inl e
             | Inr s3 \<Rightarrow>
                (case token_loop s3 [] of (s4, buf) \<Rightarrow> Inr (buf, s4)))))"

text \<open>After the operands \<open>Fscanln\<close> wants a newline or the end of the input.\<close>

function check_newline :: "ss \<Rightarrow> error + ss" where
  "check_newline s =
    (case ReadRune s of
       None \<Rightarrow> Inr s
     | Some (r, s1) \<Rightarrow>
         if r = 0x0A then Inr s1
         else if \<not> isSpace r then Inl (ScanError ''expected newline'')
         else check_newline s1)"
  by pat_completeness auto
termination
  by (relation "measure (\<lambda>s. length (inp s))") (auto dest: ReadRune_shorter)

declare check_newline.simps [simp del]

text \<open>
  The result of \<open>Fscanln(f, p)\<close>: on failure the error and the string stored through
  \<open>p\<close> (\<open>None\<close> when the call failed before it stored one); on success the string
  stored and the bytes of the file left for the next read.
\<close>

definition Fscanln_s :: "string \<Rightarrow> error \<times> string option + string \<times> string" where
  "Fscanln_s f =
    (case convertString (newScanState f) of
       Inl e \<Rightarrow> Inl (e, None)
     | Inr (str, s1) \<Rightarrow>
        (case check_newline s1 of
           Inl e \<Rightarrow> Inl (e, Some str)
         | Inr s2 \<Rightarrow> Inr (str, file_after s2)))"

subsection \<open>Printing: \<open>strconv.Itoa\<close>, verb \<open>%d\<close>\<close>

definition digit_char :: "nat \<Rightarrow> char" where
  "digit_char d = ''0123456789'' ! d"

function digits :: "nat \<Rightarrow> string" where
  "digits n = (if n < 10 then [digit_char n] else digits (n div 10) @ [digit_char (n mod 10)])"
  by pat_completeness auto
termination
  by (relation "measure id") auto

declare digits.simps [simp del]

definition Itoa :: "int \<Rightarrow> string" where
  "Itoa i = (if i < 0 then CHR ''-'' # digits (nat (- i)) else digits (nat i))"

section \<open>The world outside the process\<close>

text \<open>
  The functions of the package read and change the file system and the environment,
  start processes, send signals and talk over sockets.  The world is passed explicitly:
  each function takes it and returns it changed.  What the operating system or the
  other process answers is a field of the world that the function reads, so that every
  error branch of the source is a branch here.

  A path names a file with its bytes, or a file that may not be opened or created
  (\<open>Locked\<close>), or nothing.  The name space is flat: a path that names something can
  always be removed.  What the package prints through its logger is not part of the
  world: no result depends on it.
\<close>

datatype node = File string | Locked

datatype signal = SIGUSR1 | SIGUSR2 | SIGTERM | SIGINT

text \<open>What the other end of a connection does: the result of our write, and of our one read.\<close>

record peer =
  send_err :: "error option"
  reply :: "error + string"

text \<open>The goroutine that waits for the quit channel: the hooks and the file it will remove.\<close>

record shutdown =
  sd_hooks :: "nat list"
  sd_pidFile :: string
  sd_listener :: bool

datatype event =
    EvNotify "signal list"
  | EvStart string "string list" "string \<Rightarrow> string option" bool
  | EvSignal int signal
  | EvListen string
  | EvAccept
  | EvListenerClose
  | EvDial string
  | EvConnWrite string
  | EvConnRead string
  | EvConnClose
  | EvHook nat
  | EvCloseQuit
  | EvRemove string
  | EvLog string
  | EvExit int

text \<open>The package's logger \<open>lg\<close>: silent unless \<open>WithDebug(true)\<close> replaced it.\<close>

datatype logger = nilLogger | stdLogger

record world =
  files :: "string \<Rightarrow> node option"
  environ :: "string \<Rightarrow> string option"
  executable :: "error + string"       \<comment> \<open>the result of \<open>os.Executable()\<close>\<close>
  argv :: "string list"                 \<comment> \<open>\<open>os.Args\<close>\<close>
  getpid :: int                         \<comment> \<open>\<open>os.Getpid()\<close>\<close>
  write_err :: "error option"           \<comment> \<open>the result of a write to an open file\<close>
  start_err :: "error option"           \<comment> \<open>the result of \<open>cmd.Start()\<close>\<close>
  kill_err :: "int \<Rightarrow> signal \<Rightarrow> error option"  \<comment> \<open>the result of \<open>p.Signal(sig)\<close>\<close>
  child_started :: bool                 \<comment> \<open>the child's notification comes before the timer\<close>
  listen_res :: "error + string"        \<comment> \<open>the result of \<open>net.Listen\<close>: the address bound\<close>
  dial_res :: "string \<Rightarrow> error + peer" \<comment> \<open>the result of \<open>net.Dial\<close> to an address\<close>
  waiting :: "shutdown option"          \<comment> \<open>the shutdown goroutine, once installed\<close>
  lg :: logger                          \<comment> \<open>the package's logger\<close>
  trace :: "event list"                 \<comment> \<open>the calls made so far, oldest first\<close>

definition emit :: "event \<Rightarrow> world \<Rightarrow> world" where
  "emit e w = w\<lparr>trace := trace w @ [e]\<rparr>"

subsection \<open>Files\<close>

definition os_Open :: "world \<Rightarrow> string \<Rightarrow> error + string" where
  "os_Open w name =
    (case files w name of
       None \<Rightarrow> Inl ErrNotExist
     | Some Locked \<Rightarrow> Inl ErrPermission
     | Some (File c) \<Rightarrow> Inr c)"

definition os_Create :: "world \<Rightarrow> string \<Rightarrow> error + world" where
  "os_Create w name =
    (case files w name of
       Some Locked \<Rightarrow> Inl ErrPermission
     | _ \<Rightarrow> Inr (w\<lparr>files := (files w)(name \<mapsto> File [])\<rparr>))"

text \<open>A write to the open file \<open>name\<close> appends to it.\<close>

definition file_write :: "world \<Rightarrow> string \<Rightarrow> string \<Rightarrow> error option \<times> world" where
  "file_write w name bs =
    (case write_err w of
       Some e \<Rightarrow> (Some e, w)
     | None \<Rightarrow>
        (case files w name of
           Some (File c) \<Rightarrow> (None, w\<lparr>files := (files w)(name \<mapsto> File (c @ bs))\<rparr>)
         | _ \<Rightarrow> (Some ErrNotExist, w)))"

definition os_Remove :: "world \<Rightarrow> string \<Rightarrow> error option \<times> world" where
  "os_Remove w name =
    (case files w name of
       None \<Rightarrow> (Some ErrNotExist, emit (EvRemove name) w)
     | Some _ \<Rightarrow> (None, emit (EvRemove name) (w\<lparr>files := (files w)(name := None)\<rparr>)))"

definition os_WriteFile :: "world \<Rightarrow> string \<Rightarrow> string \<Rightarrow> error option \<times> world" where
  "os_WriteFile w name bs =
    (case os_Create w name of
       Inl e \<Rightarrow> (Some e, w)
     | Inr w1 \<Rightarrow> file_write w1 name bs)"

section \<open>The PID file\<close>

text \<open>
  \<open>readPID(filename, data...)\<close> of the socket variant.  \<open>data\<close> are the strings the
  pointers point to; the third result are those strings after the call.
\<close>

fun scan_data :: "string \<Rightarrow> string list \<Rightarrow> error option \<times> string list" where
  "scan_data f [] = (None, [])"
| "scan_data f (d # ds) =
    (case Fscanln_s f of
       Inl (e, stored) \<Rightarrow> (Some e, (case stored of None \<Rightarrow> d | Some v \<Rightarrow> v) # ds)
     | Inr (v, f1) \<Rightarrow> (case scan_data f1 ds of (e, ds1) \<Rightarrow> (e, v # ds1)))"

definition readPID :: "world \<Rightarrow> string \<Rightarrow> string list \<Rightarrow> int \<times> error option \<times> string list" where
  "readPID w filename data =
    (case os_Open w filename of
       Inl err \<Rightarrow> (- 1, Some err, data)
     | Inr f \<Rightarrow>
        (case Fscanf_d f of
           Inl err \<Rightarrow> (0, Some err, data)
         | Inr (pid, f1) \<Rightarrow>
            (case scan_data f1 data of
               (Some err, data1) \<Rightarrow> (0, Some err, data1)
             | (None, data1) \<Rightarrow> (pid, None, data1))))"

text \<open>\<open>readPID(filename)\<close> of the signal variant.\<close>

definition readPID_posix :: "world \<Rightarrow> string \<Rightarrow> int \<times> error option" where
  "readPID_posix w filename =
    (case os_Open w filename of
       Inl err \<Rightarrow> (- 1, Some err)
     | Inr f \<Rightarrow>
        (case Fscanf_d f of
           Inl err \<Rightarrow> (0, Some err)
         | Inr (pid, f1) \<Rightarrow> (pid, None)))"

text \<open>\<open>writePID(filename, PID, data...)\<close> of the socket variant.\<close>

fun print_data :: "world \<Rightarrow> string \<Rightarrow> string list \<Rightarrow> error option \<times> world" where
  "print_data w filename [] = (None, w)"
| "print_data w filename (d # ds) =
    (case file_write w filename (d @ [CHR 0x0A]) of
       (Some err, w1) \<Rightarrow> (Some err, w1)
     | (None, w1) \<Rightarrow> print_data w1 filename ds)"

definition writePID :: "world \<Rightarrow> string \<Rightarrow> int \<Rightarrow> string list \<Rightarrow> error option \<times> world" where
  "writePID w filename PID data =
    (case os_Create w filename of
       Inl err \<Rightarrow> (Some err, w)
     | Inr w1 \<Rightarrow>
        (case file_write w1 filename (Itoa PID @ [CHR 0x0A]) of
           (Some err, w2) \<Rightarrow> (Some err, w2)
         | (None, w2) \<Rightarrow> print_data w2 filename data))"

text \<open>\<open>writePID(filename, PID)\<close> of the signal variant.\<close>

definition writePID_posix :: "world \<Rightarrow> string \<Rightarrow> int \<Rightarrow> error option \<times> world" where
  "writePID_posix w filename PID = os_WriteFile w filename (Itoa PID @ [CHR 0x0A])"

section \<open>Liveness and termination requests\<close>

subsection \<open>Sockets\<close>

text \<open>
  \<open>conn.Read(buf)\<close> with a buffer of two zero bytes: the bytes that arrive overwrite
  the front of the buffer.
\<close>

definition read_buf :: "string \<Rightarrow> string" where
  "read_buf bs = take 2 (bs @ [CHR 0x00, CHR 0x00])"

subsection \<open>The socket variant\<close>

text \<open>
  \<open>pAddr\<close> is the empty string unless \<open>readPID\<close> stored an address through the
  pointer.
\<close>

definition pAddr_of :: "string list \<Rightarrow> string" where
  "pAddr_of data = (case data of [] \<Rightarrow> [] | a # _ \<Rightarrow> a)"

definition isRunning_windows :: "world \<Rightarrow> string \<Rightarrow> bool \<times> error option \<times> world" where
  "isRunning_windows w pidFile =
    (case readPID w pidFile [[]] of
       (pid, Some err, data) \<Rightarrow>
         if os_IsNotExist err then (False, None, w) else (False, Some err, w)
     | (pid, None, data) \<Rightarrow>
         if pid = 0 then (False, Some ErrNoPID, w)
         else if pAddr_of data = [] then
           (False, Some (ErrorString ''invalid pidfile:  missing address''), w)
         else
           (case dial_res w (pAddr_of data) of
              Inl err \<Rightarrow> (False, None, emit (EvDial (pAddr_of data)) w)
            | Inr conn \<Rightarrow>
               (let w1 = emit (EvDial (pAddr_of data)) w in
                case send_err conn of
                  Some err \<Rightarrow> (False, None, emit EvConnClose w1)
                | None \<Rightarrow>
                   (let w2 = emit (EvConnWrite ''ok'') w1 in
                    case reply conn of
                      Inl err \<Rightarrow> (False, Some err, emit EvConnClose w2)
                    | Inr bs \<Rightarrow>
                       (let w3 = emit (EvConnRead bs) w2 in
                        if read_buf bs \<noteq> ''ok'' then
                          (False, Some (ErrorString ''invalid response''), emit EvConnClose w3)
                        else (True, None, emit EvConnClose w3))))))"

definition terminate_windows :: "world \<Rightarrow> string \<Rightarrow> error option \<times> world" where
  "terminate_windows w pidFile =
    (case readPID w pidFile [[]] of
       (pid, Some err, data) \<Rightarrow>
         if os_IsNotExist err then (Some ErrNotRunning, w) else (Some err, w)
     | (pid, None, data) \<Rightarrow>
         if pAddr_of data = [] then
           (Some (ErrorString ''invalid pidfile:  missing address''), w)
         else
           (case dial_res w (pAddr_of data) of
              Inl err \<Rightarrow> (Some err, emit (EvDial (pAddr_of data)) w)
            | Inr conn \<Rightarrow>
               (let w1 = emit (EvDial (pAddr_of data)) w in
                case send_err conn of
                  Some err \<Rightarrow> (Some err, emit EvConnClose w1)
                | None \<Rightarrow>
                   (let w2 = emit (EvConnWrite ''ex'') w1 in
                    case reply conn of
                      Inl err \<Rightarrow> (Some err, emit EvConnClose w2)
                    | Inr bs \<Rightarrow>
                       (let w3 = emit (EvConnRead bs) w2 in
                        if read_buf bs \<noteq> ''ok'' then
                          (Some (ErrorString ''invalid response''), emit EvConnClose w3)
                        else (None, emit EvConnClose w3))))))"

subsection \<open>The signal variant\<close>

text \<open>
  On a POSIX system \<open>os.FindProcess\<close> returns a handle for every PID and no error;
  the signal decides.
\<close>

definition isRunning_posix :: "world \<Rightarrow> int \<Rightarrow> bool \<times> world" where
  "isRunning_posix w pid =
    (case kill_err w pid SIGUSR2 of
       Some err \<Rightarrow> (False, emit (EvSignal pid SIGUSR2) w)
     | None \<Rightarrow> (True, emit (EvSignal pid SIGUSR2) w))"

definition terminate_posix :: "world \<Rightarrow> int \<Rightarrow> error option \<times> world" where
  "terminate_posix w pid = (kill_err w pid SIGTERM, emit (EvSignal pid SIGTERM) w)"

section \<open>The Process facade\<close>

text \<open>
  \<open>startTimeout\<close> is a \<open>time.Duration\<close>, a number of nanoseconds.  An exit hook is a
  \<open>func()\<close>; a hook is named by a number, and running it leaves \<open>EvHook\<close> with that
  number in the trace.
\<close>

record Process =
  pidFile :: string
  startTimeout :: int
  atExit :: "nat list"

definition Close :: "Process \<Rightarrow> world \<Rightarrow> error option \<times> world" where
  "Close p w = (case os_Remove w (pidFile p) of (_, w1) \<Rightarrow> (None, w1))"

definition AtExit :: "Process \<Rightarrow> nat \<Rightarrow> Process" where
  "AtExit p fn = p\<lparr>atExit := atExit p @ [fn]\<rparr>"

definition PID :: "Process \<Rightarrow> world \<Rightarrow> int \<times> error option" where
  "PID p w = (case readPID w (pidFile p) [] of (pid, err, _) \<Rightarrow> (pid, err))"

definition IsRunning :: "Process \<Rightarrow> world \<Rightarrow> bool \<times> error option \<times> world" where
  "IsRunning p w = isRunning_windows w (pidFile p)"

definition Terminate :: "Process \<Rightarrow> world \<Rightarrow> error option \<times> world" where
  "Terminate p w = terminate_windows w (pidFile p)"

definition IsRunning_posix :: "Process \<Rightarrow> world \<Rightarrow> bool \<times> error option \<times> world" where
  "IsRunning_posix p w =
    (case readPID_posix w (pidFile p) of
       (pid, Some err) \<Rightarrow>
         if os_IsNotExist err then (False, None, w) else (False, Some err, w)
     | (pid, None) \<Rightarrow>
         if pid = 0 then (False, Some ErrNoPID, w)
         else (case isRunning_posix w pid of (b, w1) \<Rightarrow> (b, None, w1)))"

definition Terminate_posix :: "Process \<Rightarrow> world \<Rightarrow> error option \<times> world" where
  "Terminate_posix p w =
    (case readPID_posix w (pidFile p) of
       (pid, Some err) \<Rightarrow>
         if os_IsNotExist err then (Some ErrNotRunning, w) else (Some err, w)
     | (pid, None) \<Rightarrow>
         if pid = 0 then (Some ErrNoPID, w)
         else
           (case terminate_posix w pid of (err, w1) \<Rightarrow>
             (case Close p w1 of (_, w2) \<Rightarrow> (err, w2))))"

section \<open>The identity of a PID file\<close>

subsection \<open>\<open>sha256.Sum224\<close>\<close>

text \<open>
  SHA-224 as FIPS 180-4 defines it: the message is padded to a multiple of 64 bytes, each
  block of 64 bytes updates eight words of 32 bits in 64 rounds, and the digest is the
  first seven of these words, most significant byte first: 28 bytes.
\<close>

type_synonym w32 = "32 word"

text \<open>
  The round constants, in the eight rows of eight in which the standard prints them
  (section 4.2.2).
\<close>

definition K256 :: "w32 list" where
  "K256 = concat [
    [0x428a2f98, 0x71374491, 0xb5c0fbcf, 0xe9b5dba5, 0x3956c25b, 0x59f111f1, 0x923f82a4, 0xab1c5ed5],
    [0xd807aa98, 0x12835b01, 0x243185be, 0x550c7dc3, 0x72be5d74, 0x80deb1fe, 0x9bdc06a7, 0xc19bf174],
    [0xe49b69c1, 0xefbe4786, 0x0fc19dc6, 0x240ca1cc, 0x2de92c6f, 0x4a7484aa, 0x5cb0a9dc, 0x76f988da],
    [0x983e5152, 0xa831c66d, 0xb00327c8, 0xbf597fc7, 0xc6e00bf3, 0xd5a79147, 0x06ca6351, 0x14292967],
    [0x27b70a85, 0x2e1b2138, 0x4d2c6dfc, 0x53380d13, 0x650a7354, 0x766a0abb, 0x81c2c92e, 0x92722c85],
    [0xa2bfe8a1, 0xa81a664b, 0xc24b8b70, 0xc76c51a3, 0xd192e819, 0xd6990624, 0xf40e3585, 0x106aa070],
    [0x19a4c116, 0x1e376c08, 0x2748774c, 0x34b0bcb5, 0x391c0cb3, 0x4ed8aa4a, 0x5b9cca4f, 0x682e6ff3],
    [0x748f82ee, 0x78a5636f, 0x84c87814, 0x8cc70208, 0x90befffa, 0xa4506ceb, 0xbef9a3f7, 0xc67178f2]]"

definition init224 :: "w32 list" where
  "init224 = [0xc1059ed8, 0x367cd507, 0x3070dd17, 0xf70e5939,
              0xffc00b31, 0x68581511, 0x64f98fa7, 0xbefa4fa4]"

definition rotr :: "nat \<Rightarrow> w32 \<Rightarrow> w32" where
  "rotr n x = (drop_bit n x) OR (push_bit (32 - n) x)"

definition be32 :: "string \<Rightarrow> w32" where
  "be32 bs = foldl (\<lambda>a c. push_bit 8 a OR of_nat (of_char c)) 0 bs"

definition bytes32 :: "w32 \<Rightarrow> string" where
  "bytes32 x = map (\<lambda>k. char_of (unat (drop_bit (8 * k) x))) [3, 2, 1, 0]"

fun chunks :: "nat \<Rightarrow> nat \<Rightarrow> string \<Rightarrow> string list" where
  "chunks 0 n bs = []"
| "chunks (Suc k) n bs = take n bs # chunks k n (drop n bs)"

definition padding :: "string \<Rightarrow> string" where
  "padding m =
    m @ [CHR 0x80] @ replicate ((119 - length m mod 64) mod 64) (CHR 0x00)
      @ map (\<lambda>k. char_of ((8 * length m) div 2 ^ (8 * k))) [7, 6, 5, 4, 3, 2, 1, 0]"

fun schedule :: "nat \<Rightarrow> w32 list \<Rightarrow> w32 list" where
  "schedule 0 ws = ws"
| "schedule (Suc k) ws =
    (let n = length ws;
         w15 = ws ! (n - 15); w2 = ws ! (n - 2);
         s0 = rotr 7 w15 XOR rotr 18 w15 XOR drop_bit 3 w15;
         s1 = rotr 17 w2 XOR rotr 19 w2 XOR drop_bit 10 w2
     in schedule k (ws @ [ws ! (n - 16) + s0 + ws ! (n - 7) + s1]))"

definition round256 :: "w32 list \<Rightarrow> w32 \<times> w32 \<Rightarrow> w32 list" where
  "round256 v kw =
    (case v of
       [a, b, c, d, e, f, g, h] \<Rightarrow>
        (let t1 = h + (rotr 6 e XOR rotr 11 e XOR rotr 25 e) + ((e AND f) XOR (NOT e AND g))
                    + fst kw + snd kw;
             t2 = (rotr 2 a XOR rotr 13 a XOR rotr 22 a)
                    + ((a AND b) XOR (a AND c) XOR (b AND c))
         in [t1 + t2, a, b, c, d + t1, e, f, g])
     | _ \<Rightarrow> v)"

definition block256 :: "w32 list \<Rightarrow> string \<Rightarrow> w32 list" where
  "block256 hs blk =
    (let ws = schedule 48 (map be32 (chunks 16 4 blk));
         v = foldl round256 hs (zip K256 ws)
     in map2 (+) hs v)"

definition Sum224 :: "string \<Rightarrow> string" where
  "Sum224 m =
    (let p = padding m;
         hs = foldl block256 init224 (chunks (length p div 64) 64 p)
     in concat (map bytes32 (take 7 hs)))"

subsection \<open>\<open>hex.EncodeToString\<close> and \<open>strings.ToUpper\<close>\<close>

definition hexdigit :: "nat \<Rightarrow> char" where
  "hexdigit n = ''0123456789abcdef'' ! n"

definition EncodeToString :: "string \<Rightarrow> string" where
  "EncodeToString bs =
    concat (map (\<lambda>c. [hexdigit (of_char c div 16), hexdigit (of_char c mod 16)]) bs)"

text \<open>\<open>strings.ToUpper\<close> on a string of ASCII characters, as the hexadecimal digits are.\<close>

definition upper :: "char \<Rightarrow> char" where
  "upper c =
    (if 97 \<le> (of_char c :: nat) \<and> (of_char c :: nat) \<le> 122
     then char_of (of_char c - 32 :: nat) else c)"

definition ToUpper :: "string \<Rightarrow> string" where
  "ToUpper s = map upper s"

subsection \<open>\<open>hash\<close>, \<open>newEnvVar\<close> and the names of the environment variables\<close>

definition hash :: "string \<Rightarrow> string" where
  "hash s = ToUpper (EncodeToString (Sum224 s))"

text \<open>
  \<open>hash(s)[0:7]\<close>: the hash has 56 characters (lemma \<open>length_hash\<close>), so the slice is in
  range.
\<close>

definition newEnvVar :: "string \<Rightarrow> string" where
  "newEnvVar s = take 7 (hash s)"

definition envVar_stage :: "string \<Rightarrow> string" where
  "envVar_stage ident = ''TSR_'' @ ident @ ''__STG''"

definition envVar_pid :: "string \<Rightarrow> string" where
  "envVar_pid ident = ''TSR_'' @ ident @ ''__PID''"

definition envVar_addr :: "string \<Rightarrow> string" where
  "envVar_addr ident = ''TSR_'' @ ident @ ''__ADDR''"


section \<open>Stages\<close>

text \<open>
  \<open>stage\<close> is an \<open>int8\<close> with four named values.  Its method \<open>String\<close> is written by
  \<open>stringer -linecomment\<close> from the line comments of the constants; the file it writes is
  not among the sources, the comments are.
\<close>

datatype stage = sUnknown | sInitialise | sDetach | sRunning

fun stage_String :: "stage \<Rightarrow> string" where
  "stage_String sUnknown = ''UNKNOWN''"
| "stage_String sInitialise = ''INIT''"
| "stage_String sDetach = ''DETACH''"
| "stage_String sRunning = ''RUN''"

section \<open>Starting the program in the background\<close>

subsection \<open>Environment and child processes\<close>

definition os_Getenv :: "world \<Rightarrow> string \<Rightarrow> string" where
  "os_Getenv w k = (case environ w k of None \<Rightarrow> [] | Some v \<Rightarrow> v)"

definition os_Setenv :: "world \<Rightarrow> string \<Rightarrow> string \<Rightarrow> world" where
  "os_Setenv w k v = w\<lparr>environ := (environ w)(k \<mapsto> v)\<rparr>"

definition os_Unsetenv :: "world \<Rightarrow> string \<Rightarrow> world" where
  "os_Unsetenv w k = w\<lparr>environ := (environ w)(k := None)\<rparr>"

text \<open>
  \<open>exec.Command(exe, os.Args[1:]...)\<close> with the environment of the process and no
  standard streams, then \<open>cmd.Start()\<close>.  \<open>os.Args\<close> holds at least the name of the
  program.
\<close>

definition cmd_Start :: "world \<Rightarrow> string \<Rightarrow> bool \<Rightarrow> error option \<times> world" where
  "cmd_Start w exe setsid =
    (start_err w, emit (EvStart exe (drop 1 (argv w)) (environ w) setsid) w)"

text \<open>\<open>strconv.Atoi\<close> is \<open>ParseInt\<close> with base 10 and the size of an \<open>int\<close>.\<close>

definition Atoi :: "string \<Rightarrow> error + int" where
  "Atoi t = ParseInt t"

subsection \<open>The shutdown goroutine\<close>

text \<open>
  The goroutine that \<open>stageRun\<close> starts waits for the quit channel; then it runs the
  hooks in the order of the slice, closes the listener (socket variant), removes the PID
  file and exits.
\<close>

definition run_hooks :: "world \<Rightarrow> nat list \<Rightarrow> world" where
  "run_hooks w fns = foldl (\<lambda>w1 fn. emit (EvHook fn) w1) w fns"

definition shutdown_run :: "world \<Rightarrow> shutdown \<Rightarrow> world" where
  "shutdown_run w sd =
    (let w1 = run_hooks w (sd_hooks sd);
         w2 = (if sd_listener sd then emit EvListenerClose w1 else w1)
     in case os_Remove w2 (sd_pidFile sd) of (_, w3) \<Rightarrow> emit (EvExit 0) w3)"

text \<open>
  The quit channel gets a value (a signal, in the signal variant) or is closed (socket
  variant): the goroutine that waits for it runs, once.
\<close>

definition quit_fires :: "world \<Rightarrow> world" where
  "quit_fires w =
    (case waiting w of
       None \<Rightarrow> w
     | Some sd \<Rightarrow> shutdown_run (w\<lparr>waiting := None\<rparr>) sd)"

subsection \<open>The signal variant\<close>

definition notifySuccess_posix :: "world \<Rightarrow> string \<Rightarrow> error option \<times> world" where
  "notifySuccess_posix w vars =
    (let sPID = os_Getenv w (envVar_pid vars) in
     case Atoi sPID of
       Inl err \<Rightarrow> (Some (Errorf ''invalid pid value: %q, error: %w'' err), w)
     | Inr pid \<Rightarrow>
        (case kill_err w pid SIGUSR1 of
           Some err \<Rightarrow>
             (Some (Errorf ''failed to notify parent with PID=%d: %w'' err),
              emit (EvSignal pid SIGUSR1) w)
         | None \<Rightarrow> (None, emit (EvSignal pid SIGUSR1) w)))"

definition stageInit_posix ::
    "world \<Rightarrow> string \<Rightarrow> string \<Rightarrow> string \<Rightarrow> int \<Rightarrow> error option \<times> world" where
  "stageInit_posix w pidfile vars exe timeout =
    (let w1 = emit (EvNotify [SIGUSR1]) w;
         w2 = os_Setenv w1 (envVar_stage vars) (stage_String sDetach);
         w3 = os_Setenv w2 (envVar_pid vars) (Itoa (getpid w2))
     in case cmd_Start w3 exe True of
          (Some err, w4) \<Rightarrow> (Some (Errorf ''failed to initialise the process: %s'' err), w4)
        | (None, w4) \<Rightarrow>
            if child_started w4 then (None, w4) else (Some errTimeout, w4))"

definition stageDetach :: "world \<Rightarrow> string \<Rightarrow> string \<Rightarrow> error option \<times> world" where
  "stageDetach w vars exe =
    cmd_Start (os_Setenv w (envVar_stage vars) (stage_String sRunning)) exe False"

definition stageRun_posix ::
    "world \<Rightarrow> string \<Rightarrow> string \<Rightarrow> nat list \<Rightarrow> error option \<times> world" where
  "stageRun_posix w pidfile vars fns =
    (case writePID_posix w pidfile (getpid w) of
       (Some err, w1) \<Rightarrow> (Some err, w1)
     | (None, w1) \<Rightarrow>
        (case notifySuccess_posix w1 vars of (_, w2) \<Rightarrow>
          (let w3 = os_Unsetenv (os_Unsetenv w2 (envVar_stage vars)) (envVar_pid vars);
               w4 = w3\<lparr>waiting :=
                        Some \<lparr>sd_hooks = fns, sd_pidFile = pidfile, sd_listener = False\<rparr>\<rparr>
           in (None, emit (EvNotify [SIGTERM, SIGINT]) w4))))"

definition summon_posix ::
    "world \<Rightarrow> string \<Rightarrow> int \<Rightarrow> nat list \<Rightarrow> stage \<times> error option \<times> world" where
  "summon_posix w pidfile timeout fns =
    (case executable w of
       Inl err \<Rightarrow> (sUnknown, Some err, w)
     | Inr exe \<Rightarrow>
        (let vars = newEnvVar pidfile;
             stg = os_Getenv w (envVar_stage vars)
         in if stg = [] then
              (case stageInit_posix w pidfile vars exe timeout of
                 (err, w1) \<Rightarrow> (sInitialise, err, w1))
            else if stg = stage_String sDetach then
              (case stageDetach w vars exe of (err, w1) \<Rightarrow> (sDetach, err, w1))
            else if stg = stage_String sRunning then
              (case stageRun_posix w pidfile vars fns of (err, w1) \<Rightarrow> (sRunning, err, w1))
            else (sUnknown, Some errInvalidStage, w)))"

definition tsr_posix :: "world \<Rightarrow> string \<Rightarrow> int \<Rightarrow> nat list \<Rightarrow> bool \<times> error option \<times> world" where
  "tsr_posix w pidfile timeout fns =
    (case summon_posix w pidfile timeout fns of (stg, err, w1) \<Rightarrow> (stg = sRunning, err, w1))"

subsection \<open>The socket variant\<close>

definition notifySuccess_windows :: "world \<Rightarrow> string \<Rightarrow> error option \<times> world" where
  "notifySuccess_windows w vars =
    (let sAddr = os_Getenv w (envVar_addr vars) in
     if sAddr = [] then (Some (ErrorString ''missing address''), w)
     else
       (case dial_res w sAddr of
          Inl err \<Rightarrow> (Some err, emit (EvDial sAddr) w)
        | Inr conn \<Rightarrow>
           (let w1 = emit (EvDial sAddr) w in
            case send_err conn of
              Some err \<Rightarrow> (Some err, emit EvConnClose w1)
            | None \<Rightarrow> (None, emit EvConnClose (emit (EvConnWrite ''ok'') w1)))))"

text \<open>
  The launcher listens, starts the child and accepts one connection; a timer closes the
  listener when the timeout is over, and \<open>Accept\<close> then fails.
\<close>

definition stageInit_windows ::
    "world \<Rightarrow> string \<Rightarrow> string \<Rightarrow> string \<Rightarrow> int \<Rightarrow> error option \<times> world" where
  "stageInit_windows w pidfile vars exe timeout =
    (case listen_res w of
       Inl err \<Rightarrow> (Some err, w)
     | Inr a \<Rightarrow>
        (let w1 = emit (EvListen a) w;
             w2 = os_Setenv w1 (envVar_stage vars) (stage_String sRunning);
             w3 = os_Setenv w2 (envVar_pid vars) (Itoa (getpid w2));
             w4 = os_Setenv w3 (envVar_addr vars) a;
             w5 = emit (EvLog (''listening on '' @ a)) w4
         in case cmd_Start w5 exe False of
              (Some err, w6) \<Rightarrow>
                (Some (Errorf ''failed to initialise the process: %s'' err), w6)
            | (None, w6) \<Rightarrow>
                if child_started w6
                then (None, emit EvListenerClose (emit EvConnClose (emit EvAccept w6)))
                else (Some (SyscallError ''use of closed network connection''),
                      emit EvListenerClose w6)))"

definition stageRun_windows ::
    "world \<Rightarrow> string \<Rightarrow> string \<Rightarrow> nat list \<Rightarrow> error option \<times> world" where
  "stageRun_windows w pidfile vars fns =
    (case listen_res w of
       Inl err \<Rightarrow> (Some err, w)
     | Inr a \<Rightarrow>
        (case writePID (emit (EvListen a) w) pidfile (getpid w) [a] of
           (Some err, w1) \<Rightarrow> (Some err, w1)
         | (None, w1) \<Rightarrow>
            (case notifySuccess_windows w1 vars of (_, w2) \<Rightarrow>
              (let w3 = os_Unsetenv (os_Unsetenv (os_Unsetenv w2 (envVar_stage vars))
                          (envVar_pid vars)) (envVar_addr vars)
               in (None, w3\<lparr>waiting :=
                    Some \<lparr>sd_hooks = fns, sd_pidFile = pidfile, sd_listener = True\<rparr>\<rparr>)))))"

definition summon_windows ::
    "world \<Rightarrow> string \<Rightarrow> int \<Rightarrow> nat list \<Rightarrow> stage \<times> error option \<times> world" where
  "summon_windows w pidfile timeout fns =
    (case executable w of
       Inl err \<Rightarrow> (sUnknown, Some err, w)
     | Inr exe \<Rightarrow>
        (let vars = newEnvVar pidfile;
             stg = os_Getenv w (envVar_stage vars)
         in if stg = [] then
              (case stageInit_windows w pidfile vars exe timeout of
                 (err, w1) \<Rightarrow> (sInitialise, err, w1))
            else if stg = stage_String sRunning then
              (case stageRun_windows w pidfile vars fns of (err, w1) \<Rightarrow> (sRunning, err, w1))
            else (sUnknown, Some errInvalidStage, w)))"

definition tsr_windows ::
    "world \<Rightarrow> string \<Rightarrow> int \<Rightarrow> nat list \<Rightarrow> bool \<times> error option \<times> world" where
  "tsr_windows w pidfile timeout fns =
    (case summon_windows w pidfile timeout fns of (stg, err, w1) \<Rightarrow> (stg = sRunning, err, w1))"

text \<open>
  One connection to the listener of the running instance: the goroutine reads two bytes,
  answers \<open>ok\<close> to \<open>ok\<close>, and to \<open>ex\<close> answers \<open>ok\<close> and then closes the quit channel.
  Its argument is what \<open>conn.Read\<close> returns.  The goroutines run one after the other
  here: the shutdown goroutine runs when the quit channel is closed, and the process has
  exited before the connection is closed.
\<close>

definition handle_conn :: "world \<Rightarrow> error + string \<Rightarrow> world" where
  "handle_conn w rcv =
    (case rcv of
       Inl err \<Rightarrow> emit EvConnClose w
     | Inr bs \<Rightarrow>
        (let w1 = emit (EvConnRead bs) w;
             w2 = (if read_buf bs = ''ok'' then emit (EvConnWrite ''ok'') w1 else w1)
         in if read_buf bs = ''ex''
            then (case waiting w2 of
                    None \<Rightarrow> emit EvConnClose (emit EvCloseQuit (emit (EvConnWrite ''ok'') w2))
                  | Some sd \<Rightarrow> quit_fires (emit EvCloseQuit (emit (EvConnWrite ''ok'') w2)))
            else emit EvConnClose w2))"

subsection \<open>\<open>New\<close> and \<open>TSR\<close>\<close>




text \<open>\<open>filepath.Base\<close> and \<open>filepath.Ext\<close> with the separator of a POSIX system.\<close>

definition filepath_Base :: "string \<Rightarrow> string" where
  "filepath_Base path =
    (if path = [] then ''.''
     else let p1 = rev (dropWhile (\<lambda>c. c = CHR ''/'') (rev path));
              p2 = rev (takeWhile (\<lambda>c. c \<noteq> CHR ''/'') (rev p1))
          in if p2 = [] then ''/'' else p2)"

fun ext_scan :: "string \<Rightarrow> string \<Rightarrow> string" where
  "ext_scan [] acc = []"
| "ext_scan (c # cs) acc =
    (if c = CHR ''/'' then []
     else if c = CHR ''.'' then c # acc
     else ext_scan cs (c # acc))"

definition filepath_Ext :: "string \<Rightarrow> string" where
  "filepath_Ext path = ext_scan (rev path) []"







definition TSR :: "Process \<Rightarrow> world \<Rightarrow> bool \<times> error option \<times> world" where
  "TSR p w = tsr_windows w (pidFile p) (startTimeout p) (atExit p)"

definition TSR_posix :: "Process \<Rightarrow> world \<Rightarrow> bool \<times> error option \<times> world" where
  "TSR_posix p w = tsr_posix w (pidFile p) (startTimeout p) (atExit p)"

text \<open>Whether a trace holds the read of an acknowledgement.\<close>

fun is_ack :: "event \<Rightarrow> bool" where
  "is_ack (EvConnRead bs) = (read_buf bs = ''ok'')"
| "is_ack _ = False"

definition acknowledged :: "event list \<Rightarrow> bool" where
  "acknowledged evs = list_ex is_ack evs"


section \<open>Classes of file contents\<close>








text \<open>
  An ASCII character, and a plain one: ASCII and no white space.  The addresses that
  \<open>net.Listen\<close> returns for a TCP listener consist of plain characters.
\<close>

definition ascii :: "char \<Rightarrow> bool" where
  "ascii c = ((of_char c :: nat) < 128)"

definition plain :: "char \<Rightarrow> bool" where
  "plain c = (ascii c \<and> \<not> isSpace (of_char c))"

text \<open>The input after the digits: the end of the file, or an ASCII character that is no digit.\<close>

definition stops :: "nat list \<Rightarrow> string \<Rightarrow> bool" where
  "stops ok rest = (case rest of [] \<Rightarrow> True | c # _ \<Rightarrow> ascii c \<and> of_char c \<notin> set ok)"

text \<open>The position of a scanner: what is left to read, and how many runes were read.\<close>

definition pos :: "ss \<Rightarrow> string \<times> nat" where
  "pos s = (inp s, cnt s)"

definition rd :: "string \<times> nat \<Rightarrow> (nat \<times> string \<times> nat) option" where
  "rd p = (case p of (i, n) \<Rightarrow>
     if n \<ge> hugeWid then None
     else (case readRune i of None \<Rightarrow> None | Some (r, w, k) \<Rightarrow> Some (r, drop w i, Suc n)))"


section \<open>A concrete world\<close>

text \<open>
  A machine with no files and an empty environment, where every call of the operating
  system succeeds and nothing listens on any address.
\<close>

definition world0 :: world where
  "world0 =
    \<lparr>files = Map.empty, environ = Map.empty, executable = Inr ''/usr/local/bin/proggy'',
     argv = [''proggy''], getpid = 4242, write_err = None, start_err = None,
     kill_err = (\<lambda>p sg. None), child_started = True,
     listen_res = Inr ''127.0.0.1:49152'',
     dial_res = (\<lambda>a. Inl (SyscallError ''connection refused'')),
     waiting = None, lg = nilLogger, trace = []\<rparr>"

definition proc0 :: Process where
  "proc0 = \<lparr>pidFile = ''proggy.pid'', startTimeout = 0, atExit = []\<rparr>"

text \<open>The same machine with a PID file of the given contents.\<close>

definition world_with :: "string \<Rightarrow> world" where
  "world_with f = world0\<lparr>files := [''proggy.pid'' \<mapsto> File f]\<rparr>"


text \<open>The same machine with a value in the stage variable that belongs to \<open>proggy.pid\<close>.\<close>

definition world_stage :: "string \<Rightarrow> world" where
  "world_stage v = world0\<lparr>environ := [envVar_stage (newEnvVar ''proggy.pid'') \<mapsto> v]\<rparr>"

text \<open>The same machine where \<open>os.Executable\<close> fails.\<close>

definition world_noexe :: "string \<Rightarrow> world" where
  "world_noexe v = (world_stage v)\<lparr>executable := Inl ErrExecutable\<rparr>"


text \<open>
  A machine whose PID file names a listener that answers \<open>ok\<close> to what it is sent.
\<close>

definition world_listening :: world where
  "world_listening =
    (world_with (''4242'' @ [CHR 0x0A] @ ''127.0.0.1:49152'' @ [CHR 0x0A]))
      \<lparr>dial_res := (\<lambda>a. Inr \<lparr>send_err = None, reply = Inr ''ok''\<rparr>)\<rparr>"

text \<open>
  The machine after an instance with the exit hooks 1 and 2 has reached the Running stage,
  in the signal variant and in the socket variant.
\<close>

definition world_started :: world where
  "world_started = snd (snd (TSR_posix (foldl AtExit proc0 [1, 2]) (world_stage ''RUN'')))"

definition world_serving :: world where
  "world_serving = snd (snd (TSR (foldl AtExit proc0 [1, 2]) (world_stage ''RUN'')))"

section \<open>Lemmas on the scanner\<close>

subsection \<open>ASCII input\<close>

lemma readRune_ascii: "ascii c \<Longrightarrow> readRune (c # cs) = Some (of_char c, 1, 1)"
  by (simp add: readRune_def ascii_def RuneSelf_def)

lemma ReadRune_ascii:
  "ascii c \<Longrightarrow> n < hugeWid \<Longrightarrow>
   ReadRune \<lparr>inp = c # cs, ahead = a, cnt = n, prev = p\<rparr>
     = Some (of_char c, \<lparr>inp = cs, ahead = a - 1, cnt = Suc n, prev = [c]\<rparr>)"
  by (simp add: ReadRune_def readRune_ascii)

lemma ReadRune_Nil [simp]:
  "ReadRune \<lparr>inp = [], ahead = a, cnt = n, prev = p\<rparr> = None"
  by (simp add: ReadRune_def readRune_def)

lemma UnreadRune_rec [simp]:
  "UnreadRune \<lparr>inp = cs, ahead = a, cnt = Suc n, prev = q\<rparr>
     = \<lparr>inp = q @ cs, ahead = a + length q, cnt = n, prev = []\<rparr>"
  by (simp add: UnreadRune_def)

lemma SkipSpace_Nil [simp]:
  "SkipSpace \<lparr>inp = [], ahead = a, cnt = n, prev = p\<rparr>
     = Inr \<lparr>inp = [], ahead = a, cnt = n, prev = p\<rparr>"
  by (simp add: SkipSpace.simps)

lemma SkipSpace_nonspace:
  "ascii c \<Longrightarrow> \<not> isSpace (of_char c) \<Longrightarrow> n < hugeWid \<Longrightarrow>
   SkipSpace \<lparr>inp = c # cs, ahead = a, cnt = n, prev = p\<rparr>
     = Inr \<lparr>inp = c # cs, ahead = Suc (a - 1), cnt = n, prev = []\<rparr>"
  by (subst SkipSpace.simps) (auto simp: ReadRune_ascii isSpace_def)

lemma notEOF_Nil [simp]:
  "notEOF \<lparr>inp = [], ahead = a, cnt = n, prev = p\<rparr> = Inl EOF"
  by (simp add: notEOF_def)

lemma notEOF_ascii:
  "ascii c \<Longrightarrow> n < hugeWid \<Longrightarrow>
   notEOF \<lparr>inp = c # cs, ahead = a, cnt = n, prev = p\<rparr>
     = Inr \<lparr>inp = c # cs, ahead = Suc (a - 1), cnt = n, prev = []\<rparr>"
  by (simp add: notEOF_def ReadRune_ascii)

lemma accept_Nil [simp]:
  "accept ok \<lparr>inp = [], ahead = a, cnt = n, prev = p\<rparr> buf
     = (False, \<lparr>inp = [], ahead = a, cnt = n, prev = p\<rparr>, buf)"
  by (simp add: accept_def)

lemma EncodeRune_ascii: "ascii c \<Longrightarrow> EncodeRune (of_char c) = [c]"
  by (simp add: EncodeRune_def ascii_def)

lemma accept_ascii:
  "ascii c \<Longrightarrow> n < hugeWid \<Longrightarrow>
   accept ok \<lparr>inp = c # cs, ahead = a, cnt = n, prev = p\<rparr> buf
     = (if of_char c \<in> set ok
        then (True, \<lparr>inp = cs, ahead = a - 1, cnt = Suc n, prev = [c]\<rparr>, buf @ [c])
        else (False, \<lparr>inp = c # cs, ahead = Suc (a - 1), cnt = n, prev = []\<rparr>, buf))"
  by (simp add: accept_def ReadRune_ascii EncodeRune_ascii)

subsection \<open>Digits\<close>

lemma is_digit_props:
  assumes "is_digit c"
  shows "ascii c" and "\<not> isSpace (of_char c)" and "of_char c \<in> set decimalDigits"
    and "of_char c \<notin> set sign" and "c \<noteq> CHR ''-''" and "c \<noteq> CHR ''+''"
proof -
  from assms have r: "48 \<le> (of_char c :: nat)" "(of_char c :: nat) \<le> 57"
    by (simp_all add: is_digit_def)
  then show "ascii c" by (simp add: ascii_def)
  from r show "\<not> isSpace (of_char c)" by (simp add: isSpace_def)
  from r have "(of_char c :: nat) \<in> {48, 49, 50, 51, 52, 53, 54, 55, 56, 57}"
    by (simp; arith)
  then show "of_char c \<in> set decimalDigits" by (auto simp: decimalDigits_def)
  from r show "of_char c \<notin> set sign" by (auto simp: sign_def)
  from r show "c \<noteq> CHR ''-''" by auto
  from r show "c \<noteq> CHR ''+''" by auto
qed

lemma digit_char_props:
  assumes "d < 10"
  shows "is_digit (digit_char d)" and "digit_val (digit_char d) = d"
proof -
  from assms have "d \<in> {0, 1, 2, 3, 4, 5, 6, 7, 8, 9}" by (simp; arith)
  then show "is_digit (digit_char d)" and "digit_val (digit_char d) = d"
    by (auto simp: digit_char_def is_digit_def digit_val_def)
qed

lemma digits_all: "list_all is_digit (digits n)"
proof (induction n rule: digits.induct)
  case (1 n)
  show ?case
  proof (cases "n < 10")
    case True
    then show ?thesis by (simp add: digits.simps [of n] digit_char_props)
  next
    case False
    with 1 show ?thesis by (simp add: digits.simps [of n] digit_char_props)
  qed
qed

lemma digits_nonempty: "digits n \<noteq> []"
  by (simp add: digits.simps [of n])

lemma digits_value: "foldl (\<lambda>n c. n * 10 + digit_val c) 0 (digits n) = n"
proof (induction n rule: digits.induct)
  case (1 n)
  show ?case
  proof (cases "n < 10")
    case True
    then show ?thesis by (simp add: digits.simps [of n] digit_char_props)
  next
    case False
    with 1 show ?thesis by (simp add: digits.simps [of n] digit_char_props)
  qed
qed

lemma digits_length: "0 < k \<Longrightarrow> n < 10 ^ k \<Longrightarrow> length (digits n) \<le> k"
proof (induction k arbitrary: n)
  case 0
  then show ?case by simp
next
  case (Suc k)
  show ?case
  proof (cases "n < 10")
    case True
    then show ?thesis by (simp add: digits.simps [of n])
  next
    case False
    then have "0 < k" using Suc.prems by (cases k) auto
    moreover have "n div 10 < 10 ^ k" using Suc.prems by (simp add: less_mult_imp_div_less mult.commute)
    ultimately have "length (digits (n div 10)) \<le> k" by (rule Suc.IH)
    with False show ?thesis by (simp add: digits.simps [of n])
  qed
qed

lemma ParseUint_digits: "ParseUint (digits n) = Inr n"
  by (simp add: ParseUint_def digits_nonempty digits_all digits_value)

lemma hd_digits: "is_digit (hd (digits n))"
  using digits_all [of n] digits_nonempty [of n] by (cases "digits n") auto

lemma ParseInt_Itoa:
  assumes "- (2 ^ 63) \<le> i" and "i < 2 ^ 63"
  shows "ParseInt (Itoa i) = Inr i"
proof (cases "i < 0")
  case True
  then have "nat (- i) \<le> 2 ^ 63" using assms by simp
  with True show ?thesis
    by (simp add: ParseInt_def Itoa_def ParseUint_digits)
next
  case False
  then have "nat i < 2 ^ 63" using assms by simp
  moreover have "hd (digits (nat i)) \<noteq> CHR ''-''" "hd (digits (nat i)) \<noteq> CHR ''+''"
    using hd_digits [of "nat i"] by (auto dest: is_digit_props)
  ultimately show ?thesis using False
    by (simp add: ParseInt_def Itoa_def ParseUint_digits digits_nonempty)
qed

subsection \<open>Scanning a number\<close>

lemma accept_all_digits:
  assumes "list_all is_digit ds" and "n + length ds < hugeWid" and "stops decimalDigits rest"
  shows "\<exists>q. accept_all decimalDigits \<lparr>inp = ds @ rest, ahead = a, cnt = n, prev = p\<rparr> buf
           = (\<lparr>inp = rest, ahead = (if rest = [] then a - length ds else Suc (a - length ds - 1)),
               cnt = n + length ds, prev = q\<rparr>, buf @ ds)"
  using assms
proof (induction ds arbitrary: a n p buf)
  case Nil
  show ?case
  proof (cases rest)
    case Nil
    then show ?thesis by (simp add: accept_all.simps [of _ _ buf])
  next
    case (Cons c cs)
    with Nil.prems have "ascii c" "of_char c \<notin> set decimalDigits" "n < hugeWid"
      by (simp_all add: stops_def)
    with Cons show ?thesis
      by (simp add: accept_all.simps [of _ _ buf] accept_ascii)
  qed
next
  case (Cons d ds)
  then have d: "is_digit d" and n: "n < hugeWid" by simp_all
  note dp = is_digit_props [OF d]
  have step: "accept_all decimalDigits \<lparr>inp = (d # ds) @ rest, ahead = a, cnt = n, prev = p\<rparr> buf
      = accept_all decimalDigits \<lparr>inp = ds @ rest, ahead = a - 1, cnt = Suc n, prev = [d]\<rparr> (buf @ [d])"
    using dp n by (simp add: accept_all.simps [of _ _ buf] accept_ascii)
  from Cons.prems have "list_all is_digit ds" "Suc n + length ds < hugeWid" by simp_all
  from Cons.IH [OF this Cons.prems(3), of "a - 1" "[d]" "buf @ [d]"]
  show ?case unfolding step by (auto simp: diff_diff_eq add.commute)
qed

lemma scanNumber_digits:
  assumes "is_digit d" and "list_all is_digit ds" and "Suc (n + length ds) < hugeWid"
    and "stops decimalDigits rest" and "a \<le> 1"
  shows "\<exists>s1. scanNumber decimalDigits \<lparr>inp = d # ds @ rest, ahead = a, cnt = n, prev = p\<rparr> buf
           = Inr (s1, buf @ d # ds) \<and> file_after s1 = tl rest"
proof -
  note dp = is_digit_props [OF assms(1)]
  have n: "n < hugeWid" using assms(3) by simp
  from accept_all_digits [OF assms(2) _ assms(4), of "Suc n" 0 "[d]" "buf @ [d]"] assms(3)
  obtain q where q: "accept_all decimalDigits \<lparr>inp = ds @ rest, ahead = 0, cnt = Suc n, prev = [d]\<rparr> (buf @ [d])
      = (\<lparr>inp = rest, ahead = (if rest = [] then 0 else 1), cnt = Suc n + length ds, prev = q\<rparr>, (buf @ [d]) @ ds)"
    by auto
  define s1 where "s1 = \<lparr>inp = rest, ahead = (if rest = [] then 0 else 1), cnt = Suc n + length ds, prev = q\<rparr>"
  have fa: "file_after s1 = tl rest"
    by (cases rest) (simp_all add: file_after_def s1_def)
  have "a - 1 = 0" using assms(5) by simp
  then have "scanNumber decimalDigits \<lparr>inp = d # ds @ rest, ahead = a, cnt = n, prev = p\<rparr> buf
           = Inr (s1, buf @ d # ds)"
    using dp n q unfolding s1_def [symmetric]
    by (simp add: scanNumber_def notEOF_ascii accept_ascii)
  with fa show ?thesis by blast
qed

lemma Fscanf_d_unsigned:
  assumes "is_digit d" and "list_all is_digit ds" and "Suc (length ds) < hugeWid"
    and "stops decimalDigits rest"
  shows "Fscanf_d (d # ds @ rest)
           = (case ParseInt (d # ds) of Inl e \<Rightarrow> Inl e | Inr i \<Rightarrow> Inr (i, tl rest))"
proof -
  note dp = is_digit_props [OF assms(1)]
  have h: "0 < hugeWid" by (simp add: hugeWid_def)
  from scanNumber_digits [OF assms(1,2) _ assms(4), of 0 1 "[]" "[]"] assms(3)
  obtain s1 where q: "scanNumber decimalDigits \<lparr>inp = d # ds @ rest, ahead = 1, cnt = 0, prev = []\<rparr> []
      = Inr (s1, d # ds)" and fa: "file_after s1 = tl rest"
    by auto
  show ?thesis
    using dp h q fa
    by (simp add: Fscanf_d_def newScanState_def scanInt_def SkipSpace_nonspace notEOF_ascii
          accept_ascii split: sum.splits)
qed

lemma Fscanf_d_signed:
  assumes "sg = CHR ''-'' \<or> sg = CHR ''+''"
    and "is_digit d" and "list_all is_digit ds" and "Suc (Suc (length ds)) < hugeWid"
    and "stops decimalDigits rest"
  shows "Fscanf_d (sg # d # ds @ rest)
           = (case ParseInt (sg # d # ds) of Inl e \<Rightarrow> Inl e | Inr i \<Rightarrow> Inr (i, tl rest))"
proof -
  from assms(1) have sp: "ascii sg" "\<not> isSpace (of_char sg)" "of_char sg \<in> set sign"
    by (auto simp: ascii_def isSpace_def sign_def)
  have h: "0 < hugeWid" by (simp add: hugeWid_def)
  from scanNumber_digits [OF assms(2,3) _ assms(5), of 1 0 "[sg]" "[sg]"] assms(4)
  obtain s1 where q: "scanNumber decimalDigits \<lparr>inp = d # ds @ rest, ahead = 0, cnt = 1, prev = [sg]\<rparr> [sg]
      = Inr (s1, sg # d # ds)" and fa: "file_after s1 = tl rest"
    by auto
  show ?thesis
    using sp h q fa
    by (simp add: Fscanf_d_def newScanState_def scanInt_def SkipSpace_nonspace notEOF_ascii
          accept_ascii split: sum.splits)
qed

lemma Fscanf_d_Itoa:
  assumes "- (2 ^ 63) \<le> i" and "i < 2 ^ 63" and "stops decimalDigits rest"
  shows "Fscanf_d (Itoa i @ rest) = Inr (i, tl rest)"
proof -
  define m where "m = nat \<bar>i\<bar>"
  have "m < 10 ^ 19" using assms by (simp add: m_def)
  then have len: "length (digits m) \<le> 19" by (simp add: digits_length)
  obtain d ds where dd: "digits m = d # ds"
    using digits_nonempty [of m] by (cases "digits m") auto
  have d: "is_digit d" "list_all is_digit ds"
    using digits_all [of m] dd by simp_all
  have l: "Suc (Suc (length ds)) < hugeWid"
    using len dd by (simp add: hugeWid_def)
  show ?thesis
  proof (cases "i < 0")
    case True
    then have it: "Itoa i = CHR ''-'' # d # ds"
      by (simp add: Itoa_def dd [symmetric] m_def)
    from Fscanf_d_signed [OF _ d l assms(3), of "CHR ''-''"] ParseInt_Itoa [OF assms(1,2)]
    show ?thesis by (simp add: it)
  next
    case False
    then have it: "Itoa i = d # ds"
      by (simp add: Itoa_def dd [symmetric] m_def)
    from l have "Suc (length ds) < hugeWid" by simp
    from Fscanf_d_unsigned [OF d this assms(3)] ParseInt_Itoa [OF assms(1,2)]
    show ?thesis by (simp add: it)
  qed
qed

subsection \<open>Scanning a word\<close>

lemma token_loop_plain:
  assumes "list_all plain xs" and "n + length xs < hugeWid"
    and "rest = [] \<or> (ascii (hd rest) \<and> isSpace (of_char (hd rest)))"
  shows "\<exists>q. token_loop \<lparr>inp = xs @ rest, ahead = a, cnt = n, prev = p\<rparr> buf
           = (\<lparr>inp = rest, ahead = (if rest = [] then a - length xs else Suc (a - length xs - 1)),
               cnt = n + length xs, prev = q\<rparr>, buf @ xs)"
  using assms
proof (induction xs arbitrary: a n p buf)
  case Nil
  show ?case
  proof (cases rest)
    case Nil
    then show ?thesis by (simp add: token_loop.simps [of _ buf])
  next
    case (Cons c cs)
    with Nil.prems have "ascii c" "isSpace (of_char c)" "n < hugeWid"
      by simp_all
    with Cons show ?thesis
      by (simp add: token_loop.simps [of _ buf] ReadRune_ascii)
  qed
next
  case (Cons x xs)
  then have x: "ascii x" "\<not> isSpace (of_char x)" and n: "n < hugeWid"
    by (simp_all add: plain_def)
  have step: "token_loop \<lparr>inp = (x # xs) @ rest, ahead = a, cnt = n, prev = p\<rparr> buf
      = token_loop \<lparr>inp = xs @ rest, ahead = a - 1, cnt = Suc n, prev = [x]\<rparr> (buf @ [x])"
    using x n by (simp add: token_loop.simps [of _ buf] ReadRune_ascii EncodeRune_ascii)
  from Cons.prems have "list_all plain xs" "Suc n + length xs < hugeWid" by simp_all
  from Cons.IH [OF this Cons.prems(3), of "a - 1" "[x]" "buf @ [x]"]
  show ?case unfolding step by (auto simp: diff_diff_eq add.commute)
qed

lemma check_newline_Nil [simp]:
  "check_newline \<lparr>inp = [], ahead = a, cnt = n, prev = p\<rparr>
     = Inr \<lparr>inp = [], ahead = a, cnt = n, prev = p\<rparr>"
  by (simp add: check_newline.simps)

lemma check_newline_nl:
  "n < hugeWid \<Longrightarrow>
   check_newline \<lparr>inp = CHR 0x0A # nxt, ahead = a, cnt = n, prev = p\<rparr>
     = Inr \<lparr>inp = nxt, ahead = a - 1, cnt = Suc n, prev = [CHR 0x0A]\<rparr>"
  by (subst check_newline.simps) (simp add: ReadRune_ascii ascii_def)

lemma Fscanln_s_line:
  assumes "list_all plain xs" and "xs \<noteq> []" and "Suc (length xs) < hugeWid"
  shows "Fscanln_s (xs @ CHR 0x0A # nxt) = Inr (xs, nxt)"
proof -
  obtain y ys where xs: "xs = y # ys" using assms(2) by (cases xs) auto
  with assms(1) have y: "ascii y" "\<not> isSpace (of_char y)" by (simp_all add: plain_def)
  have h: "0 < hugeWid" by (simp add: hugeWid_def)
  have nl: "CHR 0x0A # nxt = [] \<or> (ascii (hd (CHR 0x0A # nxt)) \<and> isSpace (of_char (hd (CHR 0x0A # nxt))))"
    by (simp add: ascii_def isSpace_def)
  from token_loop_plain [OF assms(1) _ nl, of 0 1 "[]" "[]"] assms(3)
  obtain q where q: "token_loop \<lparr>inp = xs @ CHR 0x0A # nxt, ahead = 1, cnt = 0, prev = []\<rparr> []
      = (\<lparr>inp = CHR 0x0A # nxt, ahead = 1, cnt = length xs, prev = q\<rparr>, xs)"
    by auto
  have cs: "convertString (newScanState (xs @ CHR 0x0A # nxt))
      = Inr (xs, \<lparr>inp = CHR 0x0A # nxt, ahead = 1, cnt = length xs, prev = q\<rparr>)"
    using y h q
    by (simp add: convertString_def newScanState_def xs SkipSpace_nonspace notEOF_ascii)
  have "length xs < hugeWid" using assms(3) by simp
  then show ?thesis
    by (simp add: Fscanln_s_def cs check_newline_nl file_after_def)
qed

lemma Fscanln_s_last:
  assumes "list_all plain xs" and "xs \<noteq> []" and "Suc (length xs) < hugeWid"
  shows "Fscanln_s xs = Inr (xs, [])"
proof -
  obtain y ys where xs: "xs = y # ys" using assms(2) by (cases xs) auto
  with assms(1) have y: "ascii y" "\<not> isSpace (of_char y)" by (simp_all add: plain_def)
  have h: "0 < hugeWid" by (simp add: hugeWid_def)
  from token_loop_plain [OF assms(1), of 0 "[]" 1 "[]" "[]"] assms(3)
  obtain q where q: "token_loop \<lparr>inp = xs, ahead = 1, cnt = 0, prev = []\<rparr> []
      = (\<lparr>inp = [], ahead = 1 - length xs, cnt = length xs, prev = q\<rparr>, xs)"
    by auto
  have cs: "convertString (newScanState xs)
      = Inr (xs, \<lparr>inp = [], ahead = 1 - length xs, cnt = length xs, prev = q\<rparr>)"
    using y h q
    by (simp add: convertString_def newScanState_def xs SkipSpace_nonspace notEOF_ascii)
  show ?thesis
    by (simp add: Fscanln_s_def cs file_after_def)
qed

lemma Fscanln_s_Nil: "Fscanln_s [] = Inl (EOF, None)"
  by (simp add: Fscanln_s_def convertString_def newScanState_def)

subsection \<open>Round trip\<close>


lemma stops_nl: "stops decimalDigits (CHR 0x0A # r)"
  by (simp add: stops_def ascii_def decimalDigits_def)

subsection \<open>No second line\<close>

lemma Fscanf_d_only:
  assumes "- (2 ^ 63) \<le> pid" and "pid < 2 ^ 63" and "t = [] \<or> t = [CHR 0x0A]"
  shows "Fscanf_d (Itoa pid @ t) = Inr (pid, [])"
proof -
  from assms(3) have "stops decimalDigits t" "tl t = []"
    by (auto simp: stops_def ascii_def decimalDigits_def)
  with Fscanf_d_Itoa [OF assms(1,2), of t] show ?thesis by simp
qed

lemma token_loop_ascii:
  "ascii c \<Longrightarrow> n < hugeWid \<Longrightarrow>
   token_loop \<lparr>inp = c # cs, ahead = a, cnt = n, prev = p\<rparr> buf
     = (if isSpace (of_char c)
        then (\<lparr>inp = c # cs, ahead = Suc (a - 1), cnt = n, prev = []\<rparr>, buf)
        else token_loop \<lparr>inp = cs, ahead = a - 1, cnt = Suc n, prev = [c]\<rparr> (buf @ [c]))"
  by (subst token_loop.simps) (simp add: ReadRune_ascii EncodeRune_ascii)

lemma token_loop_Nil [simp]:
  "token_loop \<lparr>inp = [], ahead = a, cnt = n, prev = p\<rparr> buf
     = (\<lparr>inp = [], ahead = a, cnt = n, prev = p\<rparr>, buf)"
  by (simp add: token_loop.simps)

lemma check_newline_ascii:
  "ascii c \<Longrightarrow> n < hugeWid \<Longrightarrow>
   check_newline \<lparr>inp = c # cs, ahead = a, cnt = n, prev = p\<rparr>
     = (if (of_char c :: nat) = 10 then Inr \<lparr>inp = cs, ahead = a - 1, cnt = Suc n, prev = [c]\<rparr>
        else if \<not> isSpace (of_char c) then Inl (ScanError ''expected newline'')
        else check_newline \<lparr>inp = cs, ahead = a - 1, cnt = Suc n, prev = [c]\<rparr>)"
  by (subst check_newline.simps) (simp add: ReadRune_ascii)

lemma SkipSpace_ascii:
  "ascii c \<Longrightarrow> (of_char c :: nat) \<noteq> 13 \<Longrightarrow> n < hugeWid \<Longrightarrow>
   SkipSpace \<lparr>inp = c # cs, ahead = a, cnt = n, prev = p\<rparr>
     = (if (of_char c :: nat) = 10 then Inl (ScanError ''unexpected newline'')
        else if \<not> isSpace (of_char c)
          then Inr \<lparr>inp = c # cs, ahead = Suc (a - 1), cnt = n, prev = []\<rparr>
        else SkipSpace \<lparr>inp = cs, ahead = a - 1, cnt = Suc n, prev = [c]\<rparr>)"
  by (subst SkipSpace.simps) (simp add: ReadRune_ascii)

lemmas scan_eval = Fscanf_d_def Fscanln_s_def scanInt_def scanNumber_def convertString_def
  newScanState_def file_after_def notEOF_ascii accept_ascii
  SkipSpace_ascii accept_all.simps token_loop_ascii check_newline_ascii
  ascii_def isSpace_def hugeWid_def sign_def decimalDigits_def
  ParseInt_def ParseUint_def is_digit_def digit_val_def

lemma ReadRune_None: "rd (pos s) = None \<Longrightarrow> ReadRune s = None"
  by (auto simp: ReadRune_def rd_def pos_def split: option.splits if_splits)












lemma accept_None: "rd (pos s) = None \<Longrightarrow> accept ok s buf = (False, s, buf)"
  by (simp add: accept_def ReadRune_None)





lemma isSpace_10: "isSpace 10"
  by (simp add: isSpace_def)















section \<open>Properties of the PID file\<close>

lemma readPID_absent:
  "files w name = None \<Longrightarrow> readPID w name data = (- 1, Some ErrNotExist, data)"
  by (simp add: readPID_def os_Open_def)

lemma readPID_posix_absent:
  "files w name = None \<Longrightarrow> readPID_posix w name = (- 1, Some ErrNotExist)"
  by (simp add: readPID_posix_def os_Open_def)

lemma Itoa_4242: "Itoa 4242 = ''4242''"
  by code_simp


lemma os_Open_world_with: "os_Open (world_with f) ''proggy.pid'' = Inr f"
  by (simp add: os_Open_def world_with_def)

subsection \<open>Writing and reading back\<close>



text \<open>
  The claim as it is written fails for an address with a blank in it, and for the empty
  address: the file is written, and reading it back gives an error and PID 0.
\<close>

lemma scan_4242: "Fscanf_d (''4242'' @ CHR 0x0A # r) = Inr (4242, r)"
  using Fscanf_d_Itoa [of 4242 "CHR 0x0A # r", OF _ _ stops_nl] by (simp add: Itoa_4242)




subsection \<open>Files that are no PID record\<close>







subsection \<open>A missing PID file\<close>

text \<open>
  C4.  When the PID file of a process is absent, \<open>IsRunning\<close> returns \<open>(false, nil)\<close>
  and \<open>Terminate\<close> returns \<open>ErrNotRunning\<close>, in the socket variant and in the signal
  variant, and neither touches the world.
\<close>

theorem absent_pidfile_not_running:
  assumes "files w (pidFile p) = None"
  shows "IsRunning p w = (False, None, w)
       \<and> Terminate p w = (Some ErrNotRunning, w)
       \<and> IsRunning_posix p w = (False, None, w)
       \<and> Terminate_posix p w = (Some ErrNotRunning, w)"
  using assms
  by (simp add: IsRunning_def Terminate_def IsRunning_posix_def Terminate_posix_def
        isRunning_windows_def terminate_windows_def readPID_absent readPID_posix_absent
        os_IsNotExist_def)

theorem absent_pidfile_not_running_witness:
  "files world0 (pidFile proc0) = None
   \<and> IsRunning proc0 world0 = (False, None, world0)
   \<and> Terminate proc0 world0 = (Some ErrNotRunning, world0)
   \<and> IsRunning_posix proc0 world0 = (False, None, world0)
   \<and> Terminate_posix proc0 world0 = (Some ErrNotRunning, world0)"
proof -
  have h: "files world0 (pidFile proc0) = None"
    by (simp add: world0_def)
  from absent_pidfile_not_running [OF h] h show ?thesis by simp
qed

subsection \<open>A PID file with no address\<close>

text \<open>
  C5, as the code has it.  In a PID file that holds a PID and no second line, reading the
  record with a pointer for the address is an error: \<open>readPID\<close> returns \<open>io.EOF\<close> and PID
  0 and leaves the pointer alone, \<open>isRunning\<close> returns \<open>(false, io.EOF)\<close> and
  \<open>terminate\<close> returns \<open>io.EOF\<close>, and none of them touches the world.  Reading the PID
  alone succeeds.
\<close>

theorem missing_address_is_error:
  assumes "files w path = Some (File (Itoa pid @ t))" and "t = [] \<or> t = [CHR 0x0A]"
    and "- (2 ^ 63) \<le> pid" and "pid < 2 ^ 63"
  shows "readPID w path [d] = (0, Some EOF, [d])
       \<and> isRunning_windows w path = (False, Some EOF, w)
       \<and> terminate_windows w path = (Some EOF, w)
       \<and> readPID w path [] = (pid, None, [])"
proof -
  have f: "os_Open w path = Inr (Itoa pid @ t)"
    using assms(1) by (simp add: os_Open_def)
  note n = Fscanf_d_only [OF assms(3,4,2)]
  have r: "readPID w path [d] = (0, Some EOF, [d])" for d
    by (simp add: readPID_def f n Fscanln_s_Nil)
  have r0: "readPID w path [] = (pid, None, [])"
    by (simp add: readPID_def f n)
  show ?thesis
    by (simp add: r r0 isRunning_windows_def terminate_windows_def os_IsNotExist_def)
qed

theorem missing_address_is_error_witness:
  "files (world_with (''4242'' @ [CHR 0x0A])) ''proggy.pid'' = Some (File (Itoa 4242 @ [CHR 0x0A]))
   \<and> readPID (world_with (''4242'' @ [CHR 0x0A])) ''proggy.pid'' [[]] = (0, Some EOF, [[]])
   \<and> isRunning_windows (world_with (''4242'' @ [CHR 0x0A])) ''proggy.pid''
        = (False, Some EOF, world_with (''4242'' @ [CHR 0x0A]))
   \<and> terminate_windows (world_with (''4242'' @ [CHR 0x0A])) ''proggy.pid''
        = (Some EOF, world_with (''4242'' @ [CHR 0x0A]))
   \<and> readPID (world_with (''4242'' @ [CHR 0x0A])) ''proggy.pid'' [] = (4242, None, [])"
proof -
  have h: "files (world_with (''4242'' @ [CHR 0x0A])) ''proggy.pid''
             = Some (File (Itoa 4242 @ [CHR 0x0A]))"
    by (simp add: world_with_def Itoa_4242)
  from missing_address_is_error [OF h, of "[]"] h show ?thesis by simp
qed

text \<open>
  The claim as it is written fails on the file that holds \<open>4242\<close> and nothing else:
  reading the record for its address is an error, and \<open>isRunning\<close> reports that error.
\<close>

lemma scan_4242_only: "Fscanf_d ''4242'' = Inr (4242, [])"
  by (simp add: scan_eval)

lemma scan_nothing: "Fscanln_s [] = Inl (EOF, None)"
  by (simp add: Fscanln_s_def convertString_def newScanState_def)

theorem missing_address_counterexample:
  "readPID (world_with ''4242'') ''proggy.pid'' [[]] = (0, Some EOF, [[]])
   \<and> isRunning_windows (world_with ''4242'') ''proggy.pid'' = (False, Some EOF, world_with ''4242'')"
proof -
  have r: "readPID (world_with ''4242'') ''proggy.pid'' [[]] = (0, Some EOF, [[]])"
    by (simp add: readPID_def os_Open_world_with scan_4242_only scan_nothing)
  then show ?thesis
    by (simp add: isRunning_windows_def os_IsNotExist_def)
qed

section \<open>Properties of the stages\<close>

subsection \<open>An unrecognised stage\<close>

lemma Getenv_world_stage:
  "os_Getenv (world_stage v) (envVar_stage (newEnvVar ''proggy.pid'')) = v"
  by (simp add: os_Getenv_def world_stage_def)

text \<open>
  C1, as the code has it.  When the stage variable holds a value that is neither empty nor
  the name of the Running stage (nor, in the signal variant, the name of the Detach stage),
  \<open>summon\<close> returns the stage \<open>sUnknown\<close> and runs no stage handler: the world is as
  it was.  The error is \<open>errInvalidStage\<close> when \<open>os.Executable\<close> succeeds, and the error
  of \<open>os.Executable\<close> when it fails.  The socket variant has no Detach stage: there the
  name \<open>DETACH\<close> is an invalid stage as well.
\<close>

theorem summon_invalid_stage:
  assumes "os_Getenv w (envVar_stage (newEnvVar pidfile)) = stg"
    and "stg \<noteq> []" and "stg \<noteq> stage_String sRunning"
  shows "summon_windows w pidfile t fns
           = (sUnknown, Some (case executable w of Inl err \<Rightarrow> err | Inr exe \<Rightarrow> errInvalidStage), w)
       \<and> (stg \<noteq> stage_String sDetach \<longrightarrow>
            summon_posix w pidfile t fns
              = (sUnknown, Some (case executable w of Inl err \<Rightarrow> err | Inr exe \<Rightarrow> errInvalidStage), w))"
  using assms by (simp add: summon_windows_def summon_posix_def Let_def split: sum.splits)

theorem summon_invalid_stage_witness:
  "summon_windows (world_stage ''DETACH'') ''proggy.pid'' 0 []
     = (sUnknown, Some errInvalidStage, world_stage ''DETACH'')
   \<and> summon_windows (world_stage ''BOGUS'') ''proggy.pid'' 0 []
     = (sUnknown, Some errInvalidStage, world_stage ''BOGUS'')
   \<and> summon_posix (world_stage ''BOGUS'') ''proggy.pid'' 0 []
     = (sUnknown, Some errInvalidStage, world_stage ''BOGUS'')"
proof -
  have e: "executable (world_stage v) = Inr ''/usr/local/bin/proggy''" for v
    by (simp add: world_stage_def world0_def)
  from summon_invalid_stage [OF Getenv_world_stage [of "''DETACH''"], of 0 "[]"]
       summon_invalid_stage [OF Getenv_world_stage [of "''BOGUS''"], of 0 "[]"]
  show ?thesis by (simp add: e)
qed

text \<open>
  The claim as it is written fails where \<open>os.Executable\<close> fails: \<open>summon\<close> asks for
  the executable before it looks at the stage, and returns that error.
\<close>

theorem summon_invalid_stage_counterexample:
  "os_Getenv (world_noexe ''BOGUS'') (envVar_stage (newEnvVar ''proggy.pid'')) = ''BOGUS''
   \<and> summon_posix (world_noexe ''BOGUS'') ''proggy.pid'' 0 []
       = (sUnknown, Some ErrExecutable, world_noexe ''BOGUS'')
   \<and> summon_windows (world_noexe ''BOGUS'') ''proggy.pid'' 0 []
       = (sUnknown, Some ErrExecutable, world_noexe ''BOGUS'')
   \<and> ErrExecutable \<noteq> errInvalidStage"
  by (simp add: summon_posix_def summon_windows_def os_Getenv_def world_stage_def world_noexe_def)

section \<open>Properties of the Process facade\<close>

subsection \<open>\<open>Terminate\<close> of the signal variant removes the PID file\<close>





subsection \<open>The defaults of \<open>New\<close>\<close>

lemma ext_scan_le:
  "length (ext_scan xs acc) \<le> length (takeWhile (\<lambda>c. c \<noteq> CHR ''/'') xs) + length acc"
proof (induction xs arbitrary: acc)
  case Nil
  show ?case by simp
next
  case (Cons a xs)
  from Cons [of "a # acc"] show ?case by simp
qed

lemma Ext_le_Base: "length (filepath_Ext p) \<le> length (filepath_Base p)"
proof (cases "p = [] \<or> hd (rev p) = CHR ''/''")
  case True
  then have "filepath_Ext p = []"
    by (cases "rev p") (auto simp: filepath_Ext_def)
  then show ?thesis by simp
next
  case False
  then obtain c cs where r: "rev p = c # cs" "c \<noteq> CHR ''/''"
    by (cases "rev p") auto
  from ext_scan_le [of "rev p" "[]"] r False show ?thesis
    by (auto simp: filepath_Ext_def filepath_Base_def Let_def)
qed








section \<open>Properties of the identity\<close>















section \<open>Properties of the shutdown\<close>

subsection \<open>The exit hooks\<close>



lemma trace_run_hooks: "trace (run_hooks w fns) = trace w @ map EvHook fns"
  unfolding run_hooks_def by (induction fns arbitrary: w) (simp_all add: emit_def)

lemma files_run_hooks: "files (run_hooks w fns) = files w"
  unfolding run_hooks_def by (induction fns arbitrary: w) (simp_all add: emit_def)

lemma waiting_run_hooks: "waiting (run_hooks w fns) = waiting w"
  unfolding run_hooks_def by (induction fns arbitrary: w) (simp_all add: emit_def)

lemma trace_shutdown_run:
  "trace (shutdown_run w sd)
     = trace w @ map EvHook (sd_hooks sd)
         @ (if sd_listener sd then [EvListenerClose] else [])
         @ [EvRemove (sd_pidFile sd), EvExit 0]"
  by (simp add: shutdown_run_def Let_def os_Remove_def emit_def trace_run_hooks
        split: option.splits)

lemma files_shutdown_run: "files (shutdown_run w sd) (sd_pidFile sd) = None"
  by (simp add: shutdown_run_def Let_def os_Remove_def emit_def files_run_hooks
        split: option.splits)

lemma waiting_shutdown_run: "waiting (shutdown_run w sd) = waiting w"
  by (simp add: shutdown_run_def Let_def os_Remove_def emit_def waiting_run_hooks
        split: option.splits)

lemma read_buf_ex: "read_buf ''ex'' = ''ex''"
  by (simp add: read_buf_def)

lemma handle_conn_ex:
  assumes "waiting w = Some sd"
  shows "trace (handle_conn w (Inr ''ex''))
           = trace w @ [EvConnRead ''ex'', EvConnWrite ''ok'', EvCloseQuit]
               @ map EvHook (sd_hooks sd)
               @ (if sd_listener sd then [EvListenerClose] else [])
               @ [EvRemove (sd_pidFile sd), EvExit 0]"
    and "files (handle_conn w (Inr ''ex'')) (sd_pidFile sd) = None"
    and "waiting (handle_conn w (Inr ''ex'')) = None"
  using assms
  by (simp_all add: handle_conn_def read_buf_ex Let_def quit_fires_def emit_def
        trace_shutdown_run files_shutdown_run waiting_shutdown_run)

lemma tsr_windows_running:
  assumes "tsr_windows w pidfile t fns = (True, None, w1)"
  shows "waiting w1 = Some \<lparr>sd_hooks = fns, sd_pidFile = pidfile, sd_listener = True\<rparr>"
  using assms
  by (auto simp: tsr_windows_def summon_windows_def stageRun_windows_def Let_def
           split: sum.splits prod.splits option.splits if_splits)




lemma envVar_distinct:
  "envVar_stage v \<noteq> envVar_pid v" "envVar_stage v \<noteq> envVar_addr v"
  "envVar_pid v \<noteq> envVar_stage v" "envVar_addr v \<noteq> envVar_stage v"
  "envVar_pid v \<noteq> envVar_addr v" "envVar_addr v \<noteq> envVar_pid v"
  by (simp_all add: envVar_stage_def envVar_pid_def envVar_addr_def)

lemma TSR_world_RUN:
  "fst (TSR (foldl AtExit proc0 [1, 2]) (world_stage ''RUN''))"
  "fst (snd (TSR (foldl AtExit proc0 [1, 2]) (world_stage ''RUN''))) = None"
  "trace world_serving = [EvListen ''127.0.0.1:49152'']"
  by (simp_all add: world_serving_def TSR_def tsr_windows_def summon_windows_def
        stageRun_windows_def
        notifySuccess_windows_def writePID_def os_Create_def file_write_def
        os_Getenv_def os_Unsetenv_def emit_def Let_def envVar_distinct
        proc0_def AtExit_def world_stage_def world0_def Itoa_4242)

lemma TSR_posix_world_RUN:
  "fst (TSR_posix (foldl AtExit proc0 [1, 2]) (world_stage ''RUN''))"
  "fst (snd (TSR_posix (foldl AtExit proc0 [1, 2]) (world_stage ''RUN''))) = None"
  "trace world_started = [EvNotify [SIGTERM, SIGINT]]"
  "files world_started ''proggy.pid'' = Some (File (''4242'' @ [CHR 0x0A]))"
  "kill_err world_started 4242 SIGTERM = None"
  "waiting world_started
     = Some \<lparr>sd_hooks = [1, 2], sd_pidFile = ''proggy.pid'', sd_listener = False\<rparr>"
  by (simp_all add: world_started_def TSR_posix_def tsr_posix_def summon_posix_def
        stageRun_posix_def
        notifySuccess_posix_def Atoi_def ParseInt_def writePID_posix_def os_WriteFile_def
        os_Create_def file_write_def
        os_Getenv_def os_Unsetenv_def emit_def Let_def envVar_distinct
        proc0_def AtExit_def world_stage_def world0_def Itoa_4242)



subsection \<open>The acknowledgement of a request to terminate\<close>

lemma readPID_record:
  assumes "files w path = Some (File (''4242'' @ [CHR 0x0A] @ ''127.0.0.1:49152'' @ [CHR 0x0A]))"
  shows "readPID w path [d] = (4242, None, [''127.0.0.1:49152''])"
proof -
  have p: "list_all plain ''127.0.0.1:49152''"
    by (simp add: plain_def ascii_def isSpace_def)
  have l: "Suc (length ''127.0.0.1:49152'') < hugeWid"
    by (simp add: hugeWid_def)
  have a: "Fscanln_s (''127.0.0.1:49152'' @ [CHR 0x0A]) = Inr (''127.0.0.1:49152'', [])"
    using Fscanln_s_line [OF p _ l, of "[]"] by simp
  have o: "os_Open w path = Inr (''4242'' @ [CHR 0x0A] @ ''127.0.0.1:49152'' @ [CHR 0x0A])"
    using assms by (simp add: os_Open_def)
  show ?thesis
    using scan_4242 [of "''127.0.0.1:49152'' @ [CHR 0x0A]"] a
    by (simp add: readPID_def o)
qed

text \<open>
  C7, as the code has it.  In the socket variant, \<open>terminate\<close> returns no error only
  after it has dialled the address of the PID file, written \<open>ex\<close> and read the answer
  \<open>ok\<close>; and the instance, on a request \<open>ex\<close>, writes \<open>ok\<close> before it closes the quit
  channel, so before any hook has run and before the PID file is removed.
\<close>

theorem terminate_acknowledged:
  "(terminate_windows w pidfile = (None, w1) \<longrightarrow>
      (\<exists>a conn bs. dial_res w a = Inr conn \<and> send_err conn = None \<and> reply conn = Inr bs
          \<and> read_buf bs = ''ok''
          \<and> trace w1 = trace w @ [EvDial a, EvConnWrite ''ex'', EvConnRead bs, EvConnClose])
      \<and> acknowledged (drop (length (trace w)) (trace w1)))
   \<and> (waiting r = Some sd \<longrightarrow>
        trace (handle_conn r (Inr ''ex''))
          = trace r @ [EvConnRead ''ex'', EvConnWrite ''ok'', EvCloseQuit]
              @ map EvHook (sd_hooks sd)
              @ (if sd_listener sd then [EvListenerClose] else [])
              @ [EvRemove (sd_pidFile sd), EvExit 0])"
proof (intro conjI impI)
  assume a: "terminate_windows w pidfile = (None, w1)"
  then show x: "\<exists>a conn bs. dial_res w a = Inr conn \<and> send_err conn = None \<and> reply conn = Inr bs
          \<and> read_buf bs = ''ok''
          \<and> trace w1 = trace w @ [EvDial a, EvConnWrite ''ex'', EvConnRead bs, EvConnClose]"
    by (auto simp: terminate_windows_def Let_def emit_def
             split: prod.splits option.splits sum.splits if_splits)
  then show "acknowledged (drop (length (trace w)) (trace w1))"
    by (auto simp: acknowledged_def)
next
  assume "waiting r = Some sd"
  then show "trace (handle_conn r (Inr ''ex''))
          = trace r @ [EvConnRead ''ex'', EvConnWrite ''ok'', EvCloseQuit]
              @ map EvHook (sd_hooks sd)
              @ (if sd_listener sd then [EvListenerClose] else [])
              @ [EvRemove (sd_pidFile sd), EvExit 0]"
    by (rule handle_conn_ex(1))
qed

lemma terminate_world_listening:
  "terminate_windows world_listening ''proggy.pid''
     = (None, world_listening\<lparr>trace :=
          [EvDial ''127.0.0.1:49152'', EvConnWrite ''ex'', EvConnRead ''ok'', EvConnClose]\<rparr>)"
proof -
  have f: "files world_listening ''proggy.pid''
      = Some (File (''4242'' @ [CHR 0x0A] @ ''127.0.0.1:49152'' @ [CHR 0x0A]))"
    by (simp add: world_listening_def world_with_def)
  show ?thesis
    by (simp add: terminate_windows_def readPID_record [OF f] pAddr_of_def)
       (simp add: pAddr_of_def Let_def emit_def read_buf_def world_listening_def world_with_def
          world0_def)
qed

theorem terminate_acknowledged_witness:
  "terminate_windows world_listening ''proggy.pid''
     = (None, world_listening\<lparr>trace :=
          [EvDial ''127.0.0.1:49152'', EvConnWrite ''ex'', EvConnRead ''ok'', EvConnClose]\<rparr>)
   \<and> acknowledged [EvDial ''127.0.0.1:49152'', EvConnWrite ''ex'', EvConnRead ''ok'', EvConnClose]
   \<and> trace (handle_conn world_serving (Inr ''ex''))
       = [EvListen ''127.0.0.1:49152'', EvConnRead ''ex'', EvConnWrite ''ok'', EvCloseQuit,
          EvHook 1, EvHook 2, EvListenerClose, EvRemove ''proggy.pid'', EvExit 0]"
proof -
  have w: "waiting world_serving
      = Some \<lparr>sd_hooks = [1, 2], sd_pidFile = ''proggy.pid'', sd_listener = True\<rparr>"
    using tsr_windows_running [of "world_stage ''RUN''" "''proggy.pid''" 0 "[1, 2]" world_serving]
      TSR_world_RUN(1,2)
    by (simp add: world_serving_def TSR_def prod_eq_iff proc0_def AtExit_def)
  have t: "trace world_listening = []"
    by (simp add: world_listening_def world_with_def world0_def)
  from terminate_acknowledged [of world_listening "''proggy.pid''"
         "world_listening\<lparr>trace :=
            [EvDial ''127.0.0.1:49152'', EvConnWrite ''ex'', EvConnRead ''ok'', EvConnClose]\<rparr>"
         world_serving
         "\<lparr>sd_hooks = [1, 2], sd_pidFile = ''proggy.pid'', sd_listener = True\<rparr>"]
    terminate_world_listening w
  have "acknowledged (drop (length (trace world_listening))
          [EvDial ''127.0.0.1:49152'', EvConnWrite ''ex'', EvConnRead ''ok'', EvConnClose])"
    and "trace (handle_conn world_serving (Inr ''ex''))
          = trace world_serving @ [EvConnRead ''ex'', EvConnWrite ''ok'', EvCloseQuit]
              @ map EvHook [1, 2] @ [EvListenerClose] @ [EvRemove ''proggy.pid'', EvExit 0]"
    by simp_all
  then show ?thesis
    using terminate_world_listening by (simp add: t TSR_world_RUN)
qed

text \<open>
  The claim as it is written fails in the signal variant: \<open>terminate\<close> returns no error
  as soon as \<open>SIGTERM\<close> is sent.  It reads nothing from the instance, whose shutdown
  goroutine is still waiting.
\<close>

theorem terminate_acknowledged_counterexample:
  "terminate_posix world_started 4242
     = (None, world_started\<lparr>trace := [EvNotify [SIGTERM, SIGINT], EvSignal 4242 SIGTERM]\<rparr>)
   \<and> \<not> acknowledged [EvNotify [SIGTERM, SIGINT], EvSignal 4242 SIGTERM]
   \<and> waiting (world_started\<lparr>trace := [EvNotify [SIGTERM, SIGINT], EvSignal 4242 SIGTERM]\<rparr>)
       = Some \<lparr>sd_hooks = [1, 2], sd_pidFile = ''proggy.pid'', sd_listener = False\<rparr>"
  by (simp add: terminate_posix_def emit_def TSR_posix_world_RUN acknowledged_def)


end
